theory Spec2Isabelle
  imports Complex_Main "HOL-Library.Sublist"
begin

section \<open>JavaScript strings and arrays\<close>

text \<open>
  A JavaScript string is modelled as a \<^typ>\<open>string\<close>, one \<^typ>\<open>char\<close> for each code unit.
  The model is exact on ASCII text. \<open>toLowerCase\<close> and \<open>toUpperCase\<close> map the letters
  A to Z and a to z and leave every other character as it is; the Unicode case mapping
  of JavaScript on other letters is outside the model. The Hindi, Arabic and Telugu
  constants of the language tables are written as the bytes of their UTF-8 encoding;
  the code only concatenates and compares them.
\<close>

definition toLowerChar :: "char \<Rightarrow> char" where
  "toLowerChar c =
     (case map_of (zip ''ABCDEFGHIJKLMNOPQRSTUVWXYZ'' ''abcdefghijklmnopqrstuvwxyz'') c of
        Some d \<Rightarrow> d
      | None \<Rightarrow> c)"

definition toUpperChar :: "char \<Rightarrow> char" where
  "toUpperChar c =
     (case map_of (zip ''abcdefghijklmnopqrstuvwxyz'' ''ABCDEFGHIJKLMNOPQRSTUVWXYZ'') c of
        Some d \<Rightarrow> d
      | None \<Rightarrow> c)"

definition toLowerCase :: "string \<Rightarrow> string" where
  "toLowerCase s = map toLowerChar s"

definition toUpperCase :: "string \<Rightarrow> string" where
  "toUpperCase s = map toUpperChar s"

text \<open>\<open>s.split(' ')\<close>: the pieces between single spaces; the empty string gives one empty piece.\<close>

fun js_split :: "string \<Rightarrow> string list" where
  "js_split [] = [[]]"
| "js_split (c # cs) =
     (if c = CHR '' '' then [] # js_split cs
      else (case js_split cs of [] \<Rightarrow> [[c]] | w # ws \<Rightarrow> (c # w) # ws))"

text \<open>\<open>s.includes(w)\<close>: \<open>w\<close> occurs in \<open>s\<close> as a contiguous piece.\<close>

fun str_includes :: "string \<Rightarrow> string \<Rightarrow> bool" where
  "str_includes [] w = (w = [])"
| "str_includes (c # cs) w = (take (length w) (c # cs) = w \<or> str_includes cs w)"

text \<open>\<open>s.trim()\<close> removes white space at both ends.\<close>

definition isWhitespace :: "char \<Rightarrow> bool" where
  "isWhitespace c = (c \<in> set [CHR 0x09, CHR 0x0A, CHR 0x0B, CHR 0x0C, CHR 0x0D, CHR 0x20, CHR 0xA0])"

definition trim :: "string \<Rightarrow> string" where
  "trim s = rev (dropWhile isWhitespace (rev (dropWhile isWhitespace s)))"

text \<open>\<open>xs.join(sep)\<close>.\<close>

fun join :: "string \<Rightarrow> string list \<Rightarrow> string" where
  "join sep [] = []"
| "join sep [x] = x"
| "join sep (x # y # ys) = x @ sep @ join sep (y # ys)"

text \<open>A number in a template literal: the decimal digits of a natural number.\<close>

fun show_nat :: "nat \<Rightarrow> string" where
  "show_nat n =
     (if n < 10 then [''0123456789'' ! n]
      else show_nat (n div 10) @ [''0123456789'' ! (n mod 10)])"

declare show_nat.simps [simp del]

text \<open>
  \<open>xs.slice(-n)\<close>: the last \<open>n\<close> elements, the whole array when it is shorter; \<open>-0\<close> is
  \<open>0\<close>, so \<open>n = 0\<close> gives the whole array as well.
\<close>

definition slice_last :: "nat \<Rightarrow> 'a list \<Rightarrow> 'a list" where
  "slice_last n xs = (if n = 0 then xs else drop (length xs - n) xs)"

section \<open>Data model\<close>

text \<open>
  Values of a metadata object. Numbers are rationals: the code only stores them.
\<close>

datatype jsval =
    JNull
  | JBool bool
  | JNum rat
  | JStr string
  | JArr "jsval list"
  | JObj "(string \<times> jsval) list"

type_synonym metadata = "string \<rightharpoonup> jsval"


text \<open>
  The property names that every object inherits from \<open>Object.prototype\<close> (in Node.js).
  A lookup \<open>table[key]\<close> in an object literal finds the properties of the literal and,
  for a key that is none of them, these inherited ones.
\<close>

definition inheritedKeys :: "string list" where
  "inheritedKeys =
     [''constructor'', ''__defineGetter__'', ''__defineSetter__'', ''hasOwnProperty'',
      ''__lookupGetter__'', ''__lookupSetter__'', ''isPrototypeOf'', ''propertyIsEnumerable'',
      ''toString'', ''valueOf'', ''__proto__'', ''toLocaleString'']"

text \<open>
  What such a lookup gives where the code expects a value of type \<open>'a\<close>: that value, or
  the value inherited under a key, which is a function, or for \<open>__proto__\<close> the object
  \<open>Object.prototype\<close> itself. All of them are truthy.
\<close>

datatype 'a js = Val 'a | Inherited string

definition getProperty :: "(string \<rightharpoonup> 'a) \<Rightarrow> string \<Rightarrow> 'a js option" where
  "getProperty table key =
     (case table key of
        Some v \<Rightarrow> Some (Val v)
      | None \<Rightarrow> if key \<in> set inheritedKeys then Some (Inherited key) else None)"

text \<open>\<open>table[key] || d\<close>, for a table whose own values are truthy.\<close>

definition orElse :: "'a js option \<Rightarrow> 'a \<Rightarrow> 'a js" where
  "orElse v d = (case v of Some x \<Rightarrow> x | None \<Rightarrow> Val d)"

text \<open>
  The \<open>name\<close> property of an inherited value as a template renders it: the function
  \<open>Object\<close> under \<open>constructor\<close>, nothing (\<open>undefined\<close>) on \<open>Object.prototype\<close>, and
  the name of the method otherwise.
\<close>

definition inheritedName :: "string \<Rightarrow> string" where
  "inheritedName key =
     (if key = ''constructor'' then ''Object''
      else if key = ''__proto__'' then ''undefined''
      else key)"

text \<open>A text, or an inherited value where a text is expected, as a template renders it.\<close>

definition render :: "string js \<Rightarrow> string" where
  "render v =
     (case v of
        Val s \<Rightarrow> s
      | Inherited key \<Rightarrow>
          if key = ''__proto__'' then ''[object Object]''
          else ''function '' @ inheritedName key @ ''() { [native code] }'')"

text \<open>
  What a statement can throw: a \<open>TypeError\<close> (a property of \<open>undefined\<close> is read, or a
  value that is not a function is called), or the error of a call of the model.
\<close>

datatype exn = TypeError | CallFailed

text \<open>An entry of \<open>localKnowledge\<close>: \<open>{content, metadata}\<close>.\<close>

record knowledge_doc =
  content :: string
  metadata :: metadata

text \<open>A retrieved passage: \<open>{pageContent, metadata}\<close>.\<close>

record retrieved_doc =
  pageContent :: string
  doc_metadata :: metadata

text \<open>
  A processed file, as \<open>FileProcessor.processFile\<close> returns it. The service reads
  \<open>filename\<close>, \<open>type\<close>, \<open>size\<close> and \<open>content\<close>; \<open>content\<close> is \<open>null\<close> when nothing was extracted.
\<close>

record file_context =
  filename :: string
  file_type :: string
  file_size :: nat
  file_content :: "string option"

text \<open>
  A turn of the conversation log; the assistant's turn has no \<open>files\<close> field, and its
  content is the \<open>text\<close> of the answer, whatever that is.
\<close>

record message =
  msg_role :: string
  msg_content :: "string js"
  msg_language :: string
  msg_files :: "nat option"
  msg_timestamp :: string

text \<open>An entry of \<open>sessionContexts\<close>.\<close>

record session_context =
  files :: "file_context list"
  fileContext :: string
  lastUpdated :: string
  language :: string

text \<open>
  The model inference backend: \<open>invoke n prompt\<close> is the outcome of the \<open>n\<close>-th call of
  one request (counted from 0), \<open>None\<close> when the call throws (a timeout, a network error).
  The vector store: \<open>similaritySearch query k\<close>, \<open>None\<close> when it throws.
\<close>

type_synonym llm_backend = "nat \<Rightarrow> string \<Rightarrow> string option"

type_synonym vector_store = "string \<Rightarrow> nat \<Rightarrow> retrieved_doc list option"

text \<open>
  The fields of \<open>AhadAIService\<close> that its methods read or write. \<open>vectorStore\<close> and \<open>llm\<close>
  are \<open>null\<close> until \<open>initialize\<close> sets them. The two \<open>Map\<close>s are finite maps on the
  session id.
\<close>

record service =
  vectorStore :: "vector_store option"
  llm :: "llm_backend option"
  isReady :: bool
  localKnowledge :: "knowledge_doc list"
  conversationHistory :: "string \<rightharpoonup> message list"
  chromaInitialized :: bool
  sessionContexts :: "string \<rightharpoonup> session_context"

section \<open>Language tables\<close>

text \<open>
  \<open>languageConfig\<close> is set by the constructor and never written again, so it is a
  constant table here. Its \<open>greeting\<close> field is read by no method and is left out.
  The language of a request is a string that nothing checks, so a lookup in this
  table, and in the table of \<open>fallbackResponse\<close>, can find an inherited property.
\<close>

record lang_instructions =
  instr_general :: string
  instr_image :: string
  instr_document :: string
  instr_file :: string

record lang_config =
  lang_name :: string
  instructions :: lang_instructions

definition en_config :: lang_config where
  "en_config = \<lparr>
     lang_name = ''English'',
     instructions = \<lparr>
       instr_general =
         ''Provide helpful, accurate responses in English.'',
       instr_image =
         ''Describe the image content in detail.'',
       instr_document =
         ''Analyze the document and extract key information.'',
       instr_file =
         ''Reference uploaded files when relevant.''\<rparr>\<rparr>"

definition hi_config :: lang_config where
  "hi_config = \<lparr>
     lang_name = ''Hindi'',
     instructions = \<lparr>
       instr_general =
         [CHR 0xE0, CHR 0xA4, CHR 0xB9, CHR 0xE0, CHR 0xA4, CHR 0xBF, CHR 0xE0, CHR 0xA4,
         CHR 0x82, CHR 0xE0, CHR 0xA4, CHR 0xA6, CHR 0xE0, CHR 0xA5, CHR 0x80] @ '' '' @
         [CHR 0xE0, CHR 0xA4, CHR 0xAE, CHR 0xE0, CHR 0xA5, CHR 0x87, CHR 0xE0, CHR 0xA4,
         CHR 0x82] @ '' '' @ [CHR 0xE0, CHR 0xA4, CHR 0xB8, CHR 0xE0, CHR 0xA4, CHR 0xB9,
         CHR 0xE0, CHR 0xA4, CHR 0xBE, CHR 0xE0, CHR 0xA4, CHR 0xAF, CHR 0xE0, CHR 0xA4,
         CHR 0x95] @ '', '' @ [CHR 0xE0, CHR 0xA4, CHR 0xB8, CHR 0xE0, CHR 0xA4, CHR 0x9F,
         CHR 0xE0, CHR 0xA5, CHR 0x80, CHR 0xE0, CHR 0xA4, CHR 0x95] @ '' '' @ [CHR 0xE0,
         CHR 0xA4, CHR 0xAA, CHR 0xE0, CHR 0xA5, CHR 0x8D, CHR 0xE0, CHR 0xA4, CHR 0xB0,
         CHR 0xE0, CHR 0xA4, CHR 0xA4, CHR 0xE0, CHR 0xA4, CHR 0xBF, CHR 0xE0, CHR 0xA4,
         CHR 0x95, CHR 0xE0, CHR 0xA5, CHR 0x8D, CHR 0xE0, CHR 0xA4, CHR 0xB0, CHR 0xE0,
         CHR 0xA4, CHR 0xBF, CHR 0xE0, CHR 0xA4, CHR 0xAF, CHR 0xE0, CHR 0xA4, CHR 0xBE,
         CHR 0xE0, CHR 0xA4, CHR 0x8F, CHR 0xE0, CHR 0xA4, CHR 0x82] @ '' '' @ [CHR 0xE0,
         CHR 0xA4, CHR 0xAA, CHR 0xE0, CHR 0xA5, CHR 0x8D, CHR 0xE0, CHR 0xA4, CHR 0xB0,
         CHR 0xE0, CHR 0xA4, CHR 0xA6, CHR 0xE0, CHR 0xA4, CHR 0xBE, CHR 0xE0, CHR 0xA4,
         CHR 0xA8] @ '' '' @ [CHR 0xE0, CHR 0xA4, CHR 0x95, CHR 0xE0, CHR 0xA4, CHR 0xB0,
         CHR 0xE0, CHR 0xA5, CHR 0x87, CHR 0xE0, CHR 0xA4, CHR 0x82, CHR 0xE0, CHR 0xA5,
         CHR 0xA4],
       instr_image =
         [CHR 0xE0, CHR 0xA4, CHR 0x9B, CHR 0xE0, CHR 0xA4, CHR 0xB5, CHR 0xE0, CHR 0xA4,
         CHR 0xBF] @ '' '' @ [CHR 0xE0, CHR 0xA4, CHR 0xB8, CHR 0xE0, CHR 0xA4, CHR 0xBE,
         CHR 0xE0, CHR 0xA4, CHR 0xAE, CHR 0xE0, CHR 0xA4, CHR 0x97, CHR 0xE0, CHR 0xA5,
         CHR 0x8D, CHR 0xE0, CHR 0xA4, CHR 0xB0, CHR 0xE0, CHR 0xA5, CHR 0x80] @ '' '' @
         [CHR 0xE0, CHR 0xA4, CHR 0x95, CHR 0xE0, CHR 0xA4, CHR 0xBE] @ '' '' @ [CHR 0xE0,
         CHR 0xA4, CHR 0xB5, CHR 0xE0, CHR 0xA4, CHR 0xBF, CHR 0xE0, CHR 0xA4, CHR 0xB8,
         CHR 0xE0, CHR 0xA5, CHR 0x8D, CHR 0xE0, CHR 0xA4, CHR 0xA4, CHR 0xE0, CHR 0xA4,
         CHR 0xBE, CHR 0xE0, CHR 0xA4, CHR 0xB0] @ '' '' @ [CHR 0xE0, CHR 0xA4, CHR 0xB8,
         CHR 0xE0, CHR 0xA5, CHR 0x87] @ '' '' @ [CHR 0xE0, CHR 0xA4, CHR 0xB5, CHR 0xE0,
         CHR 0xA4, CHR 0xB0, CHR 0xE0, CHR 0xA5, CHR 0x8D, CHR 0xE0, CHR 0xA4, CHR 0xA3,
         CHR 0xE0, CHR 0xA4, CHR 0xA8] @ '' '' @ [CHR 0xE0, CHR 0xA4, CHR 0x95, CHR 0xE0,
         CHR 0xA4, CHR 0xB0, CHR 0xE0, CHR 0xA5, CHR 0x87, CHR 0xE0, CHR 0xA4, CHR 0x82,
         CHR 0xE0, CHR 0xA5, CHR 0xA4],
       instr_document =
         [CHR 0xE0, CHR 0xA4, CHR 0xA6, CHR 0xE0, CHR 0xA4, CHR 0xB8, CHR 0xE0, CHR 0xA5,
         CHR 0x8D, CHR 0xE0, CHR 0xA4, CHR 0xA4, CHR 0xE0, CHR 0xA4, CHR 0xBE, CHR 0xE0,
         CHR 0xA4, CHR 0xB5, CHR 0xE0, CHR 0xA5, CHR 0x87, CHR 0xE0, CHR 0xA4, CHR 0x9C,
         CHR 0xE0, CHR 0xA4, CHR 0xBC] @ '' '' @ [CHR 0xE0, CHR 0xA4, CHR 0x95, CHR 0xE0,
         CHR 0xA4, CHR 0xBE] @ '' '' @ [CHR 0xE0, CHR 0xA4, CHR 0xB5, CHR 0xE0, CHR 0xA4,
         CHR 0xBF, CHR 0xE0, CHR 0xA4, CHR 0xB6, CHR 0xE0, CHR 0xA5, CHR 0x8D, CHR 0xE0,
         CHR 0xA4, CHR 0xB2, CHR 0xE0, CHR 0xA5, CHR 0x87, CHR 0xE0, CHR 0xA4, CHR 0xB7,
         CHR 0xE0, CHR 0xA4, CHR 0xA3] @ '' '' @ [CHR 0xE0, CHR 0xA4, CHR 0x95, CHR 0xE0,
         CHR 0xA4, CHR 0xB0, CHR 0xE0, CHR 0xA5, CHR 0x87, CHR 0xE0, CHR 0xA4, CHR 0x82] @ '' ''
         @ [CHR 0xE0, CHR 0xA4, CHR 0x94, CHR 0xE0, CHR 0xA4, CHR 0xB0] @ '' '' @ [CHR 0xE0,
         CHR 0xA4, CHR 0xAE, CHR 0xE0, CHR 0xA5, CHR 0x81, CHR 0xE0, CHR 0xA4, CHR 0x96,
         CHR 0xE0, CHR 0xA5, CHR 0x8D, CHR 0xE0, CHR 0xA4, CHR 0xAF] @ '' '' @ [CHR 0xE0,
         CHR 0xA4, CHR 0x9C, CHR 0xE0, CHR 0xA4, CHR 0xBE, CHR 0xE0, CHR 0xA4, CHR 0xA8,
         CHR 0xE0, CHR 0xA4, CHR 0x95, CHR 0xE0, CHR 0xA4, CHR 0xBE, CHR 0xE0, CHR 0xA4,
         CHR 0xB0, CHR 0xE0, CHR 0xA5, CHR 0x80] @ '' '' @ [CHR 0xE0, CHR 0xA4, CHR 0xA8,
         CHR 0xE0, CHR 0xA4, CHR 0xBF, CHR 0xE0, CHR 0xA4, CHR 0x95, CHR 0xE0, CHR 0xA4,
         CHR 0xBE, CHR 0xE0, CHR 0xA4, CHR 0xB2, CHR 0xE0, CHR 0xA5, CHR 0x87, CHR 0xE0,
         CHR 0xA4, CHR 0x82, CHR 0xE0, CHR 0xA5, CHR 0xA4],
       instr_file =
         [CHR 0xE0, CHR 0xA4, CHR 0xAA, CHR 0xE0, CHR 0xA5, CHR 0x8D, CHR 0xE0, CHR 0xA4,
         CHR 0xB0, CHR 0xE0, CHR 0xA4, CHR 0xBE, CHR 0xE0, CHR 0xA4, CHR 0xB8, CHR 0xE0,
         CHR 0xA4, CHR 0x82, CHR 0xE0, CHR 0xA4, CHR 0x97, CHR 0xE0, CHR 0xA4, CHR 0xBF,
         CHR 0xE0, CHR 0xA4, CHR 0x95] @ '' '' @ [CHR 0xE0, CHR 0xA4, CHR 0xB9, CHR 0xE0,
         CHR 0xA5, CHR 0x8B, CHR 0xE0, CHR 0xA4, CHR 0xA8, CHR 0xE0, CHR 0xA5, CHR 0x87] @ '' ''
         @ [CHR 0xE0, CHR 0xA4, CHR 0xAA, CHR 0xE0, CHR 0xA4, CHR 0xB0] @ '' '' @ [CHR 0xE0,
         CHR 0xA4, CHR 0x85, CHR 0xE0, CHR 0xA4, CHR 0xAA, CHR 0xE0, CHR 0xA4, CHR 0xB2,
         CHR 0xE0, CHR 0xA5, CHR 0x8B, CHR 0xE0, CHR 0xA4, CHR 0xA1] @ '' '' @ [CHR 0xE0,
         CHR 0xA4, CHR 0x95, CHR 0xE0, CHR 0xA5, CHR 0x80] @ '' '' @ [CHR 0xE0, CHR 0xA4,
         CHR 0x97, CHR 0xE0, CHR 0xA4, CHR 0x88] @ '' '' @ [CHR 0xE0, CHR 0xA4, CHR 0xAB,
         CHR 0xE0, CHR 0xA4, CHR 0xBC, CHR 0xE0, CHR 0xA4, CHR 0xBE, CHR 0xE0, CHR 0xA4,
         CHR 0x87, CHR 0xE0, CHR 0xA4, CHR 0xB2, CHR 0xE0, CHR 0xA5, CHR 0x8B, CHR 0xE0,
         CHR 0xA4, CHR 0x82] @ '' '' @ [CHR 0xE0, CHR 0xA4, CHR 0x95, CHR 0xE0, CHR 0xA4,
         CHR 0xBE] @ '' '' @ [CHR 0xE0, CHR 0xA4, CHR 0xB8, CHR 0xE0, CHR 0xA4, CHR 0x82,
         CHR 0xE0, CHR 0xA4, CHR 0xA6, CHR 0xE0, CHR 0xA4, CHR 0xB0, CHR 0xE0, CHR 0xA5,
         CHR 0x8D, CHR 0xE0, CHR 0xA4, CHR 0xAD] @ '' '' @ [CHR 0xE0, CHR 0xA4, CHR 0xA6,
         CHR 0xE0, CHR 0xA5, CHR 0x87, CHR 0xE0, CHR 0xA4, CHR 0x82, CHR 0xE0, CHR 0xA5,
         CHR 0xA4]\<rparr>\<rparr>"

definition ar_config :: lang_config where
  "ar_config = \<lparr>
     lang_name = ''Arabic'',
     instructions = \<lparr>
       instr_general =
         [CHR 0xD9, CHR 0x82, CHR 0xD8, CHR 0xAF, CHR 0xD9, CHR 0x85] @ '' '' @ [CHR 0xD8,
         CHR 0xB1, CHR 0xD8, CHR 0xAF, CHR 0xD9, CHR 0x88, CHR 0xD8, CHR 0xAF, CHR 0xD9,
         CHR 0x8B, CHR 0xD8, CHR 0xA7] @ '' '' @ [CHR 0xD9, CHR 0x85, CHR 0xD9, CHR 0x81,
         CHR 0xD9, CHR 0x8A, CHR 0xD8, CHR 0xAF, CHR 0xD8, CHR 0xA9] @ '' '' @ [CHR 0xD9,
         CHR 0x88, CHR 0xD8, CHR 0xAF, CHR 0xD9, CHR 0x82, CHR 0xD9, CHR 0x8A, CHR 0xD9,
         CHR 0x82, CHR 0xD8, CHR 0xA9] @ '' '' @ [CHR 0xD8, CHR 0xA8, CHR 0xD8, CHR 0xA7,
         CHR 0xD9, CHR 0x84, CHR 0xD9, CHR 0x84, CHR 0xD8, CHR 0xBA, CHR 0xD8, CHR 0xA9] @ '' ''
         @ [CHR 0xD8, CHR 0xA7, CHR 0xD9, CHR 0x84, CHR 0xD8, CHR 0xB9, CHR 0xD8, CHR 0xB1,
         CHR 0xD8, CHR 0xA8, CHR 0xD9, CHR 0x8A, CHR 0xD8, CHR 0xA9] @ ''.'',
       instr_image =
         [CHR 0xD8, CHR 0xB5, CHR 0xD9, CHR 0x81] @ '' '' @ [CHR 0xD9, CHR 0x85, CHR 0xD8,
         CHR 0xAD, CHR 0xD8, CHR 0xAA, CHR 0xD9, CHR 0x88, CHR 0xD9, CHR 0x89] @ '' '' @
         [CHR 0xD8, CHR 0xA7, CHR 0xD9, CHR 0x84, CHR 0xD8, CHR 0xB5, CHR 0xD9, CHR 0x88,
         CHR 0xD8, CHR 0xB1, CHR 0xD8, CHR 0xA9] @ '' '' @ [CHR 0xD8, CHR 0xA8, CHR 0xD8,
         CHR 0xA7, CHR 0xD9, CHR 0x84, CHR 0xD8, CHR 0xAA, CHR 0xD9, CHR 0x81, CHR 0xD8,
         CHR 0xB5, CHR 0xD9, CHR 0x8A, CHR 0xD9, CHR 0x84] @ ''.'',
       instr_document =
         [CHR 0xD8, CHR 0xAD, CHR 0xD9, CHR 0x84, CHR 0xD9, CHR 0x84] @ '' '' @ [CHR 0xD8,
         CHR 0xA7, CHR 0xD9, CHR 0x84, CHR 0xD9, CHR 0x85, CHR 0xD8, CHR 0xB3, CHR 0xD8,
         CHR 0xAA, CHR 0xD9, CHR 0x86, CHR 0xD8, CHR 0xAF] @ '' '' @ [CHR 0xD9, CHR 0x88,
         CHR 0xD8, CHR 0xA7, CHR 0xD8, CHR 0xB3, CHR 0xD8, CHR 0xAA, CHR 0xD8, CHR 0xAE,
         CHR 0xD8, CHR 0xB1, CHR 0xD8, CHR 0xAC] @ '' '' @ [CHR 0xD8, CHR 0xA7, CHR 0xD9,
         CHR 0x84, CHR 0xD9, CHR 0x85, CHR 0xD8, CHR 0xB9, CHR 0xD9, CHR 0x84, CHR 0xD9,
         CHR 0x88, CHR 0xD9, CHR 0x85, CHR 0xD8, CHR 0xA7, CHR 0xD8, CHR 0xAA] @ '' '' @
         [CHR 0xD8, CHR 0xA7, CHR 0xD9, CHR 0x84, CHR 0xD8, CHR 0xB1, CHR 0xD8, CHR 0xA6,
         CHR 0xD9, CHR 0x8A, CHR 0xD8, CHR 0xB3, CHR 0xD9, CHR 0x8A, CHR 0xD8, CHR 0xA9] @ ''.'',
       instr_file =
         [CHR 0xD8, CHR 0xA3, CHR 0xD8, CHR 0xB4, CHR 0xD8, CHR 0xB1] @ '' '' @ [CHR 0xD8,
         CHR 0xA5, CHR 0xD9, CHR 0x84, CHR 0xD9, CHR 0x89] @ '' '' @ [CHR 0xD8, CHR 0xA7,
         CHR 0xD9, CHR 0x84, CHR 0xD9, CHR 0x85, CHR 0xD9, CHR 0x84, CHR 0xD9, CHR 0x81,
         CHR 0xD8, CHR 0xA7, CHR 0xD8, CHR 0xAA] @ '' '' @ [CHR 0xD8, CHR 0xA7, CHR 0xD9,
         CHR 0x84, CHR 0xD9, CHR 0x85, CHR 0xD8, CHR 0xB1, CHR 0xD9, CHR 0x81, CHR 0xD9,
         CHR 0x88, CHR 0xD8, CHR 0xB9, CHR 0xD8, CHR 0xA9] @ '' '' @ [CHR 0xD8, CHR 0xB9,
         CHR 0xD9, CHR 0x86, CHR 0xD8, CHR 0xAF, CHR 0xD9, CHR 0x85, CHR 0xD8, CHR 0xA7] @ '' ''
         @ [CHR 0xD8, CHR 0xAA, CHR 0xD9, CHR 0x83, CHR 0xD9, CHR 0x88, CHR 0xD9, CHR 0x86] @
         '' '' @ [CHR 0xD8, CHR 0xB0, CHR 0xD8, CHR 0xA7, CHR 0xD8, CHR 0xAA] @ '' '' @
         [CHR 0xD8, CHR 0xB5, CHR 0xD9, CHR 0x84, CHR 0xD8, CHR 0xA9] @ ''.''\<rparr>\<rparr>"

definition te_config :: lang_config where
  "te_config = \<lparr>
     lang_name = ''Telugu'',
     instructions = \<lparr>
       instr_general =
         [CHR 0xE0, CHR 0xB0, CHR 0xA4, CHR 0xE0, CHR 0xB1, CHR 0x86, CHR 0xE0, CHR 0xB0,
         CHR 0xB2, CHR 0xE0, CHR 0xB1, CHR 0x81, CHR 0xE0, CHR 0xB0, CHR 0x97, CHR 0xE0,
         CHR 0xB1, CHR 0x81, CHR 0xE0, CHR 0xB0, CHR 0xB2, CHR 0xE0, CHR 0xB1, CHR 0x8B] @ '' ''
         @ [CHR 0xE0, CHR 0xB0, CHR 0xB8, CHR 0xE0, CHR 0xB0, CHR 0xB9, CHR 0xE0, CHR 0xB0,
         CHR 0xBE, CHR 0xE0, CHR 0xB0, CHR 0xAF, CHR 0xE0, CHR 0xB0, CHR 0x95, CHR 0xE0,
         CHR 0xB0, CHR 0xB0, CHR 0xE0, CHR 0xB0, CHR 0xAE, CHR 0xE0, CHR 0xB1, CHR 0x88,
         CHR 0xE0, CHR 0xB0, CHR 0xA8] @ '', '' @ [CHR 0xE0, CHR 0xB0, CHR 0x96, CHR 0xE0,
         CHR 0xB0, CHR 0x9A, CHR 0xE0, CHR 0xB1, CHR 0x8D, CHR 0xE0, CHR 0xB0, CHR 0x9A,
         CHR 0xE0, CHR 0xB0, CHR 0xBF, CHR 0xE0, CHR 0xB0, CHR 0xA4, CHR 0xE0, CHR 0xB0,
         CHR 0xAE, CHR 0xE0, CHR 0xB1, CHR 0x88, CHR 0xE0, CHR 0xB0, CHR 0xA8] @ '' '' @
         [CHR 0xE0, CHR 0xB0, CHR 0xAA, CHR 0xE0, CHR 0xB1, CHR 0x8D, CHR 0xE0, CHR 0xB0,
         CHR 0xB0, CHR 0xE0, CHR 0xB0, CHR 0xA4, CHR 0xE0, CHR 0xB0, CHR 0xBF, CHR 0xE0,
         CHR 0xB0, CHR 0xB8, CHR 0xE0, CHR 0xB1, CHR 0x8D, CHR 0xE0, CHR 0xB0, CHR 0xAA,
         CHR 0xE0, CHR 0xB0, CHR 0x82, CHR 0xE0, CHR 0xB0, CHR 0xA6, CHR 0xE0, CHR 0xB0,
         CHR 0xA8, CHR 0xE0, CHR 0xB0, CHR 0xB2, CHR 0xE0, CHR 0xB0, CHR 0xA8, CHR 0xE0,
         CHR 0xB1, CHR 0x81] @ '' '' @ [CHR 0xE0, CHR 0xB0, CHR 0x85, CHR 0xE0, CHR 0xB0,
         CHR 0x82, CHR 0xE0, CHR 0xB0, CHR 0xA6, CHR 0xE0, CHR 0xB0, CHR 0xBF, CHR 0xE0,
         CHR 0xB0, CHR 0x82, CHR 0xE0, CHR 0xB0, CHR 0x9A, CHR 0xE0, CHR 0xB0, CHR 0x82,
         CHR 0xE0, CHR 0xB0, CHR 0xA1, CHR 0xE0, CHR 0xB0, CHR 0xBF] @ ''.'',
       instr_image =
         [CHR 0xE0, CHR 0xB0, CHR 0x9A, CHR 0xE0, CHR 0xB0, CHR 0xBF, CHR 0xE0, CHR 0xB0,
         CHR 0xA4, CHR 0xE0, CHR 0xB1, CHR 0x8D, CHR 0xE0, CHR 0xB0, CHR 0xB0, CHR 0xE0,
         CHR 0xB0, CHR 0x82] @ '' '' @ [CHR 0xE0, CHR 0xB0, CHR 0x95, CHR 0xE0, CHR 0xB0,
         CHR 0x82, CHR 0xE0, CHR 0xB0, CHR 0x9F, CHR 0xE0, CHR 0xB1, CHR 0x86, CHR 0xE0,
         CHR 0xB0, CHR 0x82, CHR 0xE0, CHR 0xB0, CHR 0x9F, CHR 0xE0, CHR 0xB1, CHR 0x8D,
         CHR 0xE2, CHR 0x80, CHR 0x8C, CHR 0xE0, CHR 0xB0, CHR 0xA8, CHR 0xE0, CHR 0xB1,
         CHR 0x81] @ '' '' @ [CHR 0xE0, CHR 0xB0, CHR 0xB5, CHR 0xE0, CHR 0xB0, CHR 0xBF,
         CHR 0xE0, CHR 0xB0, CHR 0xB5, CHR 0xE0, CHR 0xB0, CHR 0xB0, CHR 0xE0, CHR 0xB0,
         CHR 0x82, CHR 0xE0, CHR 0xB0, CHR 0x97, CHR 0xE0, CHR 0xB0, CHR 0xBE] @ '' '' @
         [CHR 0xE0, CHR 0xB0, CHR 0xB5, CHR 0xE0, CHR 0xB0, CHR 0xBF, CHR 0xE0, CHR 0xB0,
         CHR 0xB5, CHR 0xE0, CHR 0xB0, CHR 0xB0, CHR 0xE0, CHR 0xB0, CHR 0xBF, CHR 0xE0,
         CHR 0xB0, CHR 0x82, CHR 0xE0, CHR 0xB0, CHR 0x9A, CHR 0xE0, CHR 0xB0, CHR 0x82,
         CHR 0xE0, CHR 0xB0, CHR 0xA1, CHR 0xE0, CHR 0xB0, CHR 0xBF] @ ''.'',
       instr_document =
         [CHR 0xE0, CHR 0xB0, CHR 0xA1, CHR 0xE0, CHR 0xB0, CHR 0xBE, CHR 0xE0, CHR 0xB0,
         CHR 0x95, CHR 0xE0, CHR 0xB1, CHR 0x8D, CHR 0xE0, CHR 0xB0, CHR 0xAF, CHR 0xE0,
         CHR 0xB1, CHR 0x81, CHR 0xE0, CHR 0xB0, CHR 0xAE, CHR 0xE0, CHR 0xB1, CHR 0x86,
         CHR 0xE0, CHR 0xB0, CHR 0x82, CHR 0xE0, CHR 0xB0, CHR 0x9F, CHR 0xE0, CHR 0xB1,
         CHR 0x8D, CHR 0xE2, CHR 0x80, CHR 0x8C, CHR 0xE0, CHR 0xB0, CHR 0xA8, CHR 0xE0,
         CHR 0xB1, CHR 0x81] @ '' '' @ [CHR 0xE0, CHR 0xB0, CHR 0xB5, CHR 0xE0, CHR 0xB0,
         CHR 0xBF, CHR 0xE0, CHR 0xB0, CHR 0xB6, CHR 0xE0, CHR 0xB1, CHR 0x8D, CHR 0xE0,
         CHR 0xB0, CHR 0xB2, CHR 0xE0, CHR 0xB1, CHR 0x87, CHR 0xE0, CHR 0xB0, CHR 0xB7,
         CHR 0xE0, CHR 0xB0, CHR 0xBF, CHR 0xE0, CHR 0xB0, CHR 0x82, CHR 0xE0, CHR 0xB0,
         CHR 0x9A, CHR 0xE0, CHR 0xB0, CHR 0xBF] @ '' '' @ [CHR 0xE0, CHR 0xB0, CHR 0xAA,
         CHR 0xE0, CHR 0xB1, CHR 0x8D, CHR 0xE0, CHR 0xB0, CHR 0xB0, CHR 0xE0, CHR 0xB0,
         CHR 0xA7, CHR 0xE0, CHR 0xB0, CHR 0xBE, CHR 0xE0, CHR 0xB0, CHR 0xA8] @ '' '' @
         [CHR 0xE0, CHR 0xB0, CHR 0xB8, CHR 0xE0, CHR 0xB0, CHR 0xAE, CHR 0xE0, CHR 0xB0,
         CHR 0xBE, CHR 0xE0, CHR 0xB0, CHR 0x9A, CHR 0xE0, CHR 0xB0, CHR 0xBE, CHR 0xE0,
         CHR 0xB0, CHR 0xB0, CHR 0xE0, CHR 0xB0, CHR 0xBE, CHR 0xE0, CHR 0xB0, CHR 0xA8,
         CHR 0xE0, CHR 0xB1, CHR 0x8D, CHR 0xE0, CHR 0xB0, CHR 0xA8, CHR 0xE0, CHR 0xB0,
         CHR 0xBF] @ '' '' @ [CHR 0xE0, CHR 0xB0, CHR 0xB8, CHR 0xE0, CHR 0xB1, CHR 0x87,
         CHR 0xE0, CHR 0xB0, CHR 0x95, CHR 0xE0, CHR 0xB0, CHR 0xB0, CHR 0xE0, CHR 0xB0,
         CHR 0xBF, CHR 0xE0, CHR 0xB0, CHR 0x82, CHR 0xE0, CHR 0xB0, CHR 0x9A, CHR 0xE0,
         CHR 0xB0, CHR 0x82, CHR 0xE0, CHR 0xB0, CHR 0xA1, CHR 0xE0, CHR 0xB0, CHR 0xBF] @ ''.'',
       instr_file =
         [CHR 0xE0, CHR 0xB0, CHR 0xB8, CHR 0xE0, CHR 0xB0, CHR 0x82, CHR 0xE0, CHR 0xB0,
         CHR 0xAC, CHR 0xE0, CHR 0xB0, CHR 0x82, CHR 0xE0, CHR 0xB0, CHR 0xA7, CHR 0xE0,
         CHR 0xB0, CHR 0xBF, CHR 0xE0, CHR 0xB0, CHR 0xA4, CHR 0xE0, CHR 0xB0, CHR 0xAE,
         CHR 0xE0, CHR 0xB1, CHR 0x88, CHR 0xE0, CHR 0xB0, CHR 0xA8, CHR 0xE0, CHR 0xB0,
         CHR 0xAA, CHR 0xE0, CHR 0xB1, CHR 0x8D, CHR 0xE0, CHR 0xB0, CHR 0xAA, CHR 0xE0,
         CHR 0xB1, CHR 0x81, CHR 0xE0, CHR 0xB0, CHR 0xA1, CHR 0xE0, CHR 0xB1, CHR 0x81] @ '' ''
         @ [CHR 0xE0, CHR 0xB0, CHR 0x85, CHR 0xE0, CHR 0xB0, CHR 0xAA, CHR 0xE0, CHR 0xB1,
         CHR 0x8D, CHR 0xE2, CHR 0x80, CHR 0x8C, CHR 0xE0, CHR 0xB0, CHR 0xB2, CHR 0xE0,
         CHR 0xB1, CHR 0x8B, CHR 0xE0, CHR 0xB0, CHR 0xA1, CHR 0xE0, CHR 0xB1, CHR 0x8D] @ '' ''
         @ [CHR 0xE0, CHR 0xB0, CHR 0x9A, CHR 0xE0, CHR 0xB1, CHR 0x87, CHR 0xE0, CHR 0xB0,
         CHR 0xB8, CHR 0xE0, CHR 0xB0, CHR 0xBF, CHR 0xE0, CHR 0xB0, CHR 0xA8] @ '' '' @
         [CHR 0xE0, CHR 0xB0, CHR 0xAB, CHR 0xE0, CHR 0xB1, CHR 0x88, CHR 0xE0, CHR 0xB0,
         CHR 0xB3, CHR 0xE0, CHR 0xB1, CHR 0x8D, CHR 0xE0, CHR 0xB0, CHR 0xB2, CHR 0xE0,
         CHR 0xB0, CHR 0xA8, CHR 0xE0, CHR 0xB1, CHR 0x81] @ '' '' @ [CHR 0xE0, CHR 0xB0,
         CHR 0xB8, CHR 0xE0, CHR 0xB1, CHR 0x82, CHR 0xE0, CHR 0xB0, CHR 0x9A, CHR 0xE0,
         CHR 0xB0, CHR 0xBF, CHR 0xE0, CHR 0xB0, CHR 0x82, CHR 0xE0, CHR 0xB0, CHR 0x9A,
         CHR 0xE0, CHR 0xB0, CHR 0x82, CHR 0xE0, CHR 0xB0, CHR 0xA1, CHR 0xE0, CHR 0xB0,
         CHR 0xBF] @ ''.''\<rparr>\<rparr>"

definition languageConfig :: "string \<Rightarrow> lang_config option" where
  "languageConfig code =
     (if code = ''en'' then Some en_config
      else if code = ''hi'' then Some hi_config
      else if code = ''ar'' then Some ar_config
      else if code = ''te'' then Some te_config
      else None)"

text \<open>\<open>this.languageConfig[language] || this.languageConfig['en']\<close>.\<close>

definition langConfigFor :: "string \<Rightarrow> lang_config js" where
  "langConfigFor code = orElse (getProperty languageConfig code) en_config"

text \<open>\<open>langConfig.name\<close> in a template.\<close>

definition configName :: "lang_config js \<Rightarrow> string" where
  "configName langConfig =
     (case langConfig of Val c \<Rightarrow> lang_name c | Inherited key \<Rightarrow> inheritedName key)"

text \<open>
  \<open>langConfig.instructions\<close>, read for one of its properties: an inherited value has no
  \<open>instructions\<close>, and reading a property of \<open>undefined\<close> throws.
\<close>

definition configInstructions :: "lang_config js \<Rightarrow> exn + lang_instructions" where
  "configInstructions langConfig =
     (case langConfig of Val c \<Rightarrow> Inr (instructions c) | Inherited key \<Rightarrow> Inl TypeError)"

text \<open>
  The four canned answers of \<open>fallbackResponse\<close>, each a template around the query.
\<close>

definition fallback_en :: "string \<Rightarrow> string" where
  "fallback_en query =
     ''I understand you're asking: \"''
     @ query @
     ''\". As Ahad AI, I can help you analyze uploaded files and answer questions '' @
     ''about them. If you've uploaded files, please make sure they were successfully '' @
     ''processed.''"

definition fallback_hi :: "string \<Rightarrow> string" where
  "fallback_hi query =
     [CHR 0xE0, CHR 0xA4, CHR 0xAE, CHR 0xE0, CHR 0xA5, CHR 0x88, CHR 0xE0, CHR 0xA4, CHR 0x82]
     @ '' '' @ [CHR 0xE0, CHR 0xA4, CHR 0xB8, CHR 0xE0, CHR 0xA4, CHR 0xAE, CHR 0xE0, CHR 0xA4,
     CHR 0x9D, CHR 0xE0, CHR 0xA4, CHR 0xA4, CHR 0xE0, CHR 0xA4, CHR 0xBE] @ '' '' @ [CHR 0xE0,
     CHR 0xA4, CHR 0xB9, CHR 0xE0, CHR 0xA5, CHR 0x82, CHR 0xE0, CHR 0xA4, CHR 0x82] @ '' '' @
     [CHR 0xE0, CHR 0xA4, CHR 0x86, CHR 0xE0, CHR 0xA4, CHR 0xAA] @ '' '' @ [CHR 0xE0, CHR 0xA4,
     CHR 0xAA, CHR 0xE0, CHR 0xA5, CHR 0x82, CHR 0xE0, CHR 0xA4, CHR 0x9B] @ '' '' @ [CHR 0xE0,
     CHR 0xA4, CHR 0xB0, CHR 0xE0, CHR 0xA4, CHR 0xB9, CHR 0xE0, CHR 0xA5, CHR 0x87] @ '' '' @
     [CHR 0xE0, CHR 0xA4, CHR 0xB9, CHR 0xE0, CHR 0xA5, CHR 0x88, CHR 0xE0, CHR 0xA4, CHR 0x82]
     @ '': \"''
     @ query @
     ''\"'' @ [CHR 0xE0, CHR 0xA5, CHR 0xA4] @ '' '' @ [CHR 0xE0, CHR 0xA4, CHR 0x86, CHR 0xE0,
     CHR 0xA4, CHR 0xB9, CHR 0xE0, CHR 0xA4, CHR 0xA6] @ '' AI '' @ [CHR 0xE0, CHR 0xA4,
     CHR 0x95, CHR 0xE0, CHR 0xA5, CHR 0x87] @ '' '' @ [CHR 0xE0, CHR 0xA4, CHR 0xB0, CHR 0xE0,
     CHR 0xA5, CHR 0x82, CHR 0xE0, CHR 0xA4, CHR 0xAA] @ '' '' @ [CHR 0xE0, CHR 0xA4, CHR 0xAE,
     CHR 0xE0, CHR 0xA5, CHR 0x87, CHR 0xE0, CHR 0xA4, CHR 0x82] @ '', '' @ [CHR 0xE0, CHR 0xA4,
     CHR 0xAE, CHR 0xE0, CHR 0xA5, CHR 0x88, CHR 0xE0, CHR 0xA4, CHR 0x82] @ '' '' @ [CHR 0xE0,
     CHR 0xA4, CHR 0x85, CHR 0xE0, CHR 0xA4, CHR 0xAA, CHR 0xE0, CHR 0xA4, CHR 0xB2, CHR 0xE0,
     CHR 0xA5, CHR 0x8B, CHR 0xE0, CHR 0xA4, CHR 0xA1] @ '' '' @ [CHR 0xE0, CHR 0xA4, CHR 0x95,
     CHR 0xE0, CHR 0xA4, CHR 0xBF, CHR 0xE0, CHR 0xA4, CHR 0x8F] @ '' '' @ [CHR 0xE0, CHR 0xA4,
     CHR 0x97, CHR 0xE0, CHR 0xA4, CHR 0x8F] @ '' '' @ [CHR 0xE0, CHR 0xA4, CHR 0xAB, CHR 0xE0,
     CHR 0xA4, CHR 0xBE, CHR 0xE0, CHR 0xA4, CHR 0x87, CHR 0xE0, CHR 0xA4, CHR 0xB2, CHR 0xE0,
     CHR 0xA5, CHR 0x8B, CHR 0xE0, CHR 0xA4, CHR 0x82] @ '' '' @ [CHR 0xE0, CHR 0xA4, CHR 0x95,
     CHR 0xE0, CHR 0xA4, CHR 0xBE] @ '' '' @ [CHR 0xE0, CHR 0xA4, CHR 0xB5, CHR 0xE0, CHR 0xA4,
     CHR 0xBF, CHR 0xE0, CHR 0xA4, CHR 0xB6, CHR 0xE0, CHR 0xA5, CHR 0x8D, CHR 0xE0, CHR 0xA4,
     CHR 0xB2, CHR 0xE0, CHR 0xA5, CHR 0x87, CHR 0xE0, CHR 0xA4, CHR 0xB7, CHR 0xE0, CHR 0xA4,
     CHR 0xA3] @ '' '' @ [CHR 0xE0, CHR 0xA4, CHR 0x95, CHR 0xE0, CHR 0xA4, CHR 0xB0, CHR 0xE0,
     CHR 0xA4, CHR 0xA8, CHR 0xE0, CHR 0xA5, CHR 0x87] @ '' '' @ [CHR 0xE0, CHR 0xA4, CHR 0x94,
     CHR 0xE0, CHR 0xA4, CHR 0xB0] @ '' '' @ [CHR 0xE0, CHR 0xA4, CHR 0x89, CHR 0xE0, CHR 0xA4,
     CHR 0xA8, CHR 0xE0, CHR 0xA4, CHR 0x95, CHR 0xE0, CHR 0xA5, CHR 0x87] @ '' '' @ [CHR 0xE0,
     CHR 0xA4, CHR 0xAC, CHR 0xE0, CHR 0xA4, CHR 0xBE, CHR 0xE0, CHR 0xA4, CHR 0xB0, CHR 0xE0,
     CHR 0xA5, CHR 0x87] @ '' '' @ [CHR 0xE0, CHR 0xA4, CHR 0xAE, CHR 0xE0, CHR 0xA5, CHR 0x87,
     CHR 0xE0, CHR 0xA4, CHR 0x82] @ '' '' @ [CHR 0xE0, CHR 0xA4, CHR 0xAA, CHR 0xE0, CHR 0xA5,
     CHR 0x8D, CHR 0xE0, CHR 0xA4, CHR 0xB0, CHR 0xE0, CHR 0xA4, CHR 0xB6, CHR 0xE0, CHR 0xA5,
     CHR 0x8D, CHR 0xE0, CHR 0xA4, CHR 0xA8, CHR 0xE0, CHR 0xA5, CHR 0x8B, CHR 0xE0, CHR 0xA4,
     CHR 0x82] @ '' '' @ [CHR 0xE0, CHR 0xA4, CHR 0x95, CHR 0xE0, CHR 0xA4, CHR 0xBE] @ '' '' @
     [CHR 0xE0, CHR 0xA4, CHR 0x89, CHR 0xE0, CHR 0xA4, CHR 0xA4, CHR 0xE0, CHR 0xA5, CHR 0x8D,
     CHR 0xE0, CHR 0xA4, CHR 0xA4, CHR 0xE0, CHR 0xA4, CHR 0xB0] @ '' '' @ [CHR 0xE0, CHR 0xA4,
     CHR 0xA6, CHR 0xE0, CHR 0xA5, CHR 0x87, CHR 0xE0, CHR 0xA4, CHR 0xA8, CHR 0xE0, CHR 0xA5,
     CHR 0x87] @ '' '' @ [CHR 0xE0, CHR 0xA4, CHR 0xAE, CHR 0xE0, CHR 0xA5, CHR 0x87, CHR 0xE0,
     CHR 0xA4, CHR 0x82] @ '' '' @ [CHR 0xE0, CHR 0xA4, CHR 0x86, CHR 0xE0, CHR 0xA4, CHR 0xAA,
     CHR 0xE0, CHR 0xA4, CHR 0x95, CHR 0xE0, CHR 0xA5, CHR 0x80] @ '' '' @ [CHR 0xE0, CHR 0xA4,
     CHR 0xB8, CHR 0xE0, CHR 0xA4, CHR 0xB9, CHR 0xE0, CHR 0xA4, CHR 0xBE, CHR 0xE0, CHR 0xA4,
     CHR 0xAF, CHR 0xE0, CHR 0xA4, CHR 0xA4, CHR 0xE0, CHR 0xA4, CHR 0xBE] @ '' '' @ [CHR 0xE0,
     CHR 0xA4, CHR 0x95, CHR 0xE0, CHR 0xA4, CHR 0xB0] @ '' '' @ [CHR 0xE0, CHR 0xA4, CHR 0xB8,
     CHR 0xE0, CHR 0xA4, CHR 0x95, CHR 0xE0, CHR 0xA4, CHR 0xA4, CHR 0xE0, CHR 0xA4, CHR 0xBE] @
     '' '' @ [CHR 0xE0, CHR 0xA4, CHR 0xB9, CHR 0xE0, CHR 0xA5, CHR 0x82, CHR 0xE0, CHR 0xA4,
     CHR 0x82, CHR 0xE0, CHR 0xA5, CHR 0xA4] @ '' '' @ [CHR 0xE0, CHR 0xA4, CHR 0xAF, CHR 0xE0,
     CHR 0xA4, CHR 0xA6, CHR 0xE0, CHR 0xA4, CHR 0xBF] @ '' '' @ [CHR 0xE0, CHR 0xA4, CHR 0x86,
     CHR 0xE0, CHR 0xA4, CHR 0xAA, CHR 0xE0, CHR 0xA4, CHR 0xA8, CHR 0xE0, CHR 0xA5, CHR 0x87] @
     '' '' @ [CHR 0xE0, CHR 0xA4, CHR 0xAB, CHR 0xE0, CHR 0xA4, CHR 0xBE, CHR 0xE0, CHR 0xA4,
     CHR 0x87, CHR 0xE0, CHR 0xA4, CHR 0xB2, CHR 0xE0, CHR 0xA5, CHR 0x87, CHR 0xE0, CHR 0xA4,
     CHR 0x82] @ '' '' @ [CHR 0xE0, CHR 0xA4, CHR 0x85, CHR 0xE0, CHR 0xA4, CHR 0xAA, CHR 0xE0,
     CHR 0xA4, CHR 0xB2, CHR 0xE0, CHR 0xA5, CHR 0x8B, CHR 0xE0, CHR 0xA4, CHR 0xA1] @ '' '' @
     [CHR 0xE0, CHR 0xA4, CHR 0x95, CHR 0xE0, CHR 0xA5, CHR 0x80] @ '' '' @ [CHR 0xE0, CHR 0xA4,
     CHR 0xB9, CHR 0xE0, CHR 0xA5, CHR 0x88, CHR 0xE0, CHR 0xA4, CHR 0x82] @ '', '' @ [CHR 0xE0,
     CHR 0xA4, CHR 0xA4, CHR 0xE0, CHR 0xA5, CHR 0x8B] @ '' '' @ [CHR 0xE0, CHR 0xA4, CHR 0x95,
     CHR 0xE0, CHR 0xA5, CHR 0x83, CHR 0xE0, CHR 0xA4, CHR 0xAA, CHR 0xE0, CHR 0xA4, CHR 0xAF,
     CHR 0xE0, CHR 0xA4, CHR 0xBE] @ '' '' @ [CHR 0xE0, CHR 0xA4, CHR 0xB8, CHR 0xE0, CHR 0xA5,
     CHR 0x81, CHR 0xE0, CHR 0xA4, CHR 0xA8, CHR 0xE0, CHR 0xA4, CHR 0xBF, CHR 0xE0, CHR 0xA4,
     CHR 0xB6, CHR 0xE0, CHR 0xA5, CHR 0x8D, CHR 0xE0, CHR 0xA4, CHR 0x9A, CHR 0xE0, CHR 0xA4,
     CHR 0xBF, CHR 0xE0, CHR 0xA4, CHR 0xA4] @ '' '' @ [CHR 0xE0, CHR 0xA4, CHR 0x95, CHR 0xE0,
     CHR 0xA4, CHR 0xB0, CHR 0xE0, CHR 0xA5, CHR 0x87, CHR 0xE0, CHR 0xA4, CHR 0x82] @ '' '' @
     [CHR 0xE0, CHR 0xA4, CHR 0x95, CHR 0xE0, CHR 0xA4, CHR 0xBF] @ '' '' @ [CHR 0xE0, CHR 0xA4,
     CHR 0xB5, CHR 0xE0, CHR 0xA5, CHR 0x87] @ '' '' @ [CHR 0xE0, CHR 0xA4, CHR 0xB8, CHR 0xE0,
     CHR 0xA4, CHR 0xAB, CHR 0xE0, CHR 0xA4, CHR 0xB2, CHR 0xE0, CHR 0xA4, CHR 0xA4, CHR 0xE0,
     CHR 0xA4, CHR 0xBE, CHR 0xE0, CHR 0xA4, CHR 0xAA, CHR 0xE0, CHR 0xA5, CHR 0x82, CHR 0xE0,
     CHR 0xA4, CHR 0xB0, CHR 0xE0, CHR 0xA5, CHR 0x8D, CHR 0xE0, CHR 0xA4, CHR 0xB5, CHR 0xE0,
     CHR 0xA4, CHR 0x95] @ '' '' @ [CHR 0xE0, CHR 0xA4, CHR 0xAA, CHR 0xE0, CHR 0xA5, CHR 0x8D,
     CHR 0xE0, CHR 0xA4, CHR 0xB0, CHR 0xE0, CHR 0xA4, CHR 0xB8, CHR 0xE0, CHR 0xA4, CHR 0x82,
     CHR 0xE0, CHR 0xA4, CHR 0xB8, CHR 0xE0, CHR 0xA5, CHR 0x8D, CHR 0xE0, CHR 0xA4, CHR 0x95,
     CHR 0xE0, CHR 0xA5, CHR 0x83, CHR 0xE0, CHR 0xA4, CHR 0xA4] @ '' '' @ [CHR 0xE0, CHR 0xA4,
     CHR 0xB9, CHR 0xE0, CHR 0xA5, CHR 0x81, CHR 0xE0, CHR 0xA4, CHR 0x88] @ '' '' @ [CHR 0xE0,
     CHR 0xA4, CHR 0xB9, CHR 0xE0, CHR 0xA5, CHR 0x88, CHR 0xE0, CHR 0xA4, CHR 0x82, CHR 0xE0,
     CHR 0xA5, CHR 0xA4]"

definition fallback_ar :: "string \<Rightarrow> string" where
  "fallback_ar query =
     [CHR 0xD8, CHR 0xA3, CHR 0xD9, CHR 0x81, CHR 0xD9, CHR 0x87, CHR 0xD9, CHR 0x85] @ '' '' @
     [CHR 0xD8, CHR 0xA3, CHR 0xD9, CHR 0x86, CHR 0xD9, CHR 0x83] @ '' '' @ [CHR 0xD8, CHR 0xAA,
     CHR 0xD8, CHR 0xB3, CHR 0xD8, CHR 0xA3, CHR 0xD9, CHR 0x84] @ '': \"''
     @ query @
     ''\". '' @ [CHR 0xD9, CHR 0x83, CHR 0xD8, CHR 0xA2, CHR 0xD8, CHR 0xAD, CHR 0xD8, CHR 0xA7,
     CHR 0xD8, CHR 0xAF] @ '' AI'' @ [CHR 0xD8, CHR 0x8C] @ '' '' @ [CHR 0xD9, CHR 0x8A,
     CHR 0xD9, CHR 0x85, CHR 0xD9, CHR 0x83, CHR 0xD9, CHR 0x86, CHR 0xD9, CHR 0x86, CHR 0xD9,
     CHR 0x8A] @ '' '' @ [CHR 0xD9, CHR 0x85, CHR 0xD8, CHR 0xB3, CHR 0xD8, CHR 0xA7, CHR 0xD8,
     CHR 0xB9, CHR 0xD8, CHR 0xAF, CHR 0xD8, CHR 0xAA, CHR 0xD9, CHR 0x83] @ '' '' @ [CHR 0xD9,
     CHR 0x81, CHR 0xD9, CHR 0x8A] @ '' '' @ [CHR 0xD8, CHR 0xAA, CHR 0xD8, CHR 0xAD, CHR 0xD9,
     CHR 0x84, CHR 0xD9, CHR 0x8A, CHR 0xD9, CHR 0x84] @ '' '' @ [CHR 0xD8, CHR 0xA7, CHR 0xD9,
     CHR 0x84, CHR 0xD9, CHR 0x85, CHR 0xD9, CHR 0x84, CHR 0xD9, CHR 0x81, CHR 0xD8, CHR 0xA7,
     CHR 0xD8, CHR 0xAA] @ '' '' @ [CHR 0xD8, CHR 0xA7, CHR 0xD9, CHR 0x84, CHR 0xD9, CHR 0x85,
     CHR 0xD8, CHR 0xB1, CHR 0xD9, CHR 0x81, CHR 0xD9, CHR 0x88, CHR 0xD8, CHR 0xB9, CHR 0xD8,
     CHR 0xA9] @ '' '' @ [CHR 0xD9, CHR 0x88, CHR 0xD8, CHR 0xA7, CHR 0xD9, CHR 0x84, CHR 0xD8,
     CHR 0xA5, CHR 0xD8, CHR 0xAC, CHR 0xD8, CHR 0xA7, CHR 0xD8, CHR 0xA8, CHR 0xD8, CHR 0xA9] @
     '' '' @ [CHR 0xD8, CHR 0xB9, CHR 0xD9, CHR 0x84, CHR 0xD9, CHR 0x89] @ '' '' @ [CHR 0xD8,
     CHR 0xA3, CHR 0xD8, CHR 0xB3, CHR 0xD8, CHR 0xA6, CHR 0xD9, CHR 0x84, CHR 0xD8, CHR 0xAA,
     CHR 0xD9, CHR 0x83] @ '' '' @ [CHR 0xD8, CHR 0xB9, CHR 0xD9, CHR 0x86, CHR 0xD9, CHR 0x87,
     CHR 0xD8, CHR 0xA7] @ ''. '' @ [CHR 0xD8, CHR 0xA5, CHR 0xD8, CHR 0xB0, CHR 0xD8, CHR 0xA7]
     @ '' '' @ [CHR 0xD9, CHR 0x82, CHR 0xD9, CHR 0x85, CHR 0xD8, CHR 0xAA] @ '' '' @ [CHR 0xD8,
     CHR 0xA8, CHR 0xD8, CHR 0xAA, CHR 0xD8, CHR 0xAD, CHR 0xD9, CHR 0x85, CHR 0xD9, CHR 0x8A,
     CHR 0xD9, CHR 0x84] @ '' '' @ [CHR 0xD9, CHR 0x85, CHR 0xD9, CHR 0x84, CHR 0xD9, CHR 0x81,
     CHR 0xD8, CHR 0xA7, CHR 0xD8, CHR 0xAA, CHR 0xD8, CHR 0x8C] @ '' '' @ [CHR 0xD9, CHR 0x8A,
     CHR 0xD8, CHR 0xB1, CHR 0xD8, CHR 0xAC, CHR 0xD9, CHR 0x89] @ '' '' @ [CHR 0xD8, CHR 0xA7,
     CHR 0xD9, CHR 0x84, CHR 0xD8, CHR 0xAA, CHR 0xD8, CHR 0xA3, CHR 0xD9, CHR 0x83, CHR 0xD8,
     CHR 0xAF] @ '' '' @ [CHR 0xD9, CHR 0x85, CHR 0xD9, CHR 0x86] @ '' '' @ [CHR 0xD9, CHR 0x85,
     CHR 0xD8, CHR 0xB9, CHR 0xD8, CHR 0xA7, CHR 0xD9, CHR 0x84, CHR 0xD8, CHR 0xAC, CHR 0xD8,
     CHR 0xAA, CHR 0xD9, CHR 0x87, CHR 0xD8, CHR 0xA7] @ '' '' @ [CHR 0xD8, CHR 0xA8, CHR 0xD9,
     CHR 0x86, CHR 0xD8, CHR 0xAC, CHR 0xD8, CHR 0xA7, CHR 0xD8, CHR 0xAD] @ ''.''"

definition fallback_te :: "string \<Rightarrow> string" where
  "fallback_te query =
     [CHR 0xE0, CHR 0xB0, CHR 0xAE, CHR 0xE0, CHR 0xB1, CHR 0x80, CHR 0xE0, CHR 0xB0, CHR 0xB0,
     CHR 0xE0, CHR 0xB1, CHR 0x81] @ '' '' @ [CHR 0xE0, CHR 0xB0, CHR 0x85, CHR 0xE0, CHR 0xB0,
     CHR 0xA1, CHR 0xE0, CHR 0xB1, CHR 0x81, CHR 0xE0, CHR 0xB0, CHR 0x97, CHR 0xE0, CHR 0xB1,
     CHR 0x81, CHR 0xE0, CHR 0xB0, CHR 0xA4, CHR 0xE0, CHR 0xB1, CHR 0x81, CHR 0xE0, CHR 0xB0,
     CHR 0xA8, CHR 0xE0, CHR 0xB1, CHR 0x8D, CHR 0xE0, CHR 0xB0, CHR 0xA8, CHR 0xE0, CHR 0xB0,
     CHR 0xBE, CHR 0xE0, CHR 0xB0, CHR 0xB0, CHR 0xE0, CHR 0xB0, CHR 0xA8, CHR 0xE0, CHR 0xB0,
     CHR 0xBF] @ '' '' @ [CHR 0xE0, CHR 0xB0, CHR 0xA8, CHR 0xE0, CHR 0xB1, CHR 0x87, CHR 0xE0,
     CHR 0xB0, CHR 0xA8, CHR 0xE0, CHR 0xB1, CHR 0x81] @ '' '' @ [CHR 0xE0, CHR 0xB0, CHR 0x85,
     CHR 0xE0, CHR 0xB0, CHR 0xB0, CHR 0xE0, CHR 0xB1, CHR 0x8D, CHR 0xE0, CHR 0xB0, CHR 0xA5,
     CHR 0xE0, CHR 0xB0, CHR 0x82] @ '' '' @ [CHR 0xE0, CHR 0xB0, CHR 0x9A, CHR 0xE0, CHR 0xB1,
     CHR 0x87, CHR 0xE0, CHR 0xB0, CHR 0xB8, CHR 0xE0, CHR 0xB1, CHR 0x81, CHR 0xE0, CHR 0xB0,
     CHR 0x95, CHR 0xE0, CHR 0xB1, CHR 0x81, CHR 0xE0, CHR 0xB0, CHR 0xA8, CHR 0xE0, CHR 0xB1,
     CHR 0x8D, CHR 0xE0, CHR 0xB0, CHR 0xA8, CHR 0xE0, CHR 0xB0, CHR 0xBE, CHR 0xE0, CHR 0xB0,
     CHR 0xA8, CHR 0xE0, CHR 0xB1, CHR 0x81] @ '': \"''
     @ query @
     ''\". '' @ [CHR 0xE0, CHR 0xB0, CHR 0x86, CHR 0xE0, CHR 0xB0, CHR 0xB9, CHR 0xE0, CHR 0xB0,
     CHR 0xA6, CHR 0xE0, CHR 0xB1, CHR 0x8D] @ '' AI '' @ [CHR 0xE0, CHR 0xB0, CHR 0x97,
     CHR 0xE0, CHR 0xB0, CHR 0xBE] @ '', '' @ [CHR 0xE0, CHR 0xB0, CHR 0xA8, CHR 0xE0, CHR 0xB1,
     CHR 0x87, CHR 0xE0, CHR 0xB0, CHR 0xA8, CHR 0xE0, CHR 0xB1, CHR 0x81] @ '' '' @ [CHR 0xE0,
     CHR 0xB0, CHR 0x85, CHR 0xE0, CHR 0xB0, CHR 0xAA, CHR 0xE0, CHR 0xB1, CHR 0x8D, CHR 0xE2,
     CHR 0x80, CHR 0x8C, CHR 0xE0, CHR 0xB0, CHR 0xB2, CHR 0xE0, CHR 0xB1, CHR 0x8B, CHR 0xE0,
     CHR 0xB0, CHR 0xA1, CHR 0xE0, CHR 0xB1, CHR 0x8D] @ '' '' @ [CHR 0xE0, CHR 0xB0, CHR 0x9A,
     CHR 0xE0, CHR 0xB1, CHR 0x87, CHR 0xE0, CHR 0xB0, CHR 0xB8, CHR 0xE0, CHR 0xB0, CHR 0xBF,
     CHR 0xE0, CHR 0xB0, CHR 0xA8] @ '' '' @ [CHR 0xE0, CHR 0xB0, CHR 0xAB, CHR 0xE0, CHR 0xB1,
     CHR 0x88, CHR 0xE0, CHR 0xB0, CHR 0xB3, CHR 0xE0, CHR 0xB1, CHR 0x8D, CHR 0xE0, CHR 0xB0,
     CHR 0xB2, CHR 0xE0, CHR 0xB0, CHR 0xA8, CHR 0xE0, CHR 0xB1, CHR 0x81] @ '' '' @ [CHR 0xE0,
     CHR 0xB0, CHR 0xB5, CHR 0xE0, CHR 0xB0, CHR 0xBF, CHR 0xE0, CHR 0xB0, CHR 0xB6, CHR 0xE0,
     CHR 0xB1, CHR 0x8D, CHR 0xE0, CHR 0xB0, CHR 0xB2, CHR 0xE0, CHR 0xB1, CHR 0x87, CHR 0xE0,
     CHR 0xB0, CHR 0xB7, CHR 0xE0, CHR 0xB0, CHR 0xBF, CHR 0xE0, CHR 0xB0, CHR 0x82, CHR 0xE0,
     CHR 0xB0, CHR 0x9A, CHR 0xE0, CHR 0xB0, CHR 0xA1, CHR 0xE0, CHR 0xB0, CHR 0x82, CHR 0xE0,
     CHR 0xB0, CHR 0xB2, CHR 0xE0, CHR 0xB1, CHR 0x8B] @ '' '' @ [CHR 0xE0, CHR 0xB0, CHR 0xAE,
     CHR 0xE0, CHR 0xB0, CHR 0xB0, CHR 0xE0, CHR 0xB0, CHR 0xBF, CHR 0xE0, CHR 0xB0, CHR 0xAF,
     CHR 0xE0, CHR 0xB1, CHR 0x81] @ '' '' @ [CHR 0xE0, CHR 0xB0, CHR 0xB5, CHR 0xE0, CHR 0xB0,
     CHR 0xBE, CHR 0xE0, CHR 0xB0, CHR 0x9F, CHR 0xE0, CHR 0xB0, CHR 0xBF] @ '' '' @ [CHR 0xE0,
     CHR 0xB0, CHR 0x97, CHR 0xE0, CHR 0xB1, CHR 0x81, CHR 0xE0, CHR 0xB0, CHR 0xB0, CHR 0xE0,
     CHR 0xB0, CHR 0xBF, CHR 0xE0, CHR 0xB0, CHR 0x82, CHR 0xE0, CHR 0xB0, CHR 0x9A, CHR 0xE0,
     CHR 0xB0, CHR 0xBF] @ '' '' @ [CHR 0xE0, CHR 0xB0, CHR 0xAA, CHR 0xE0, CHR 0xB1, CHR 0x8D,
     CHR 0xE0, CHR 0xB0, CHR 0xB0, CHR 0xE0, CHR 0xB0, CHR 0xB6, CHR 0xE0, CHR 0xB1, CHR 0x8D,
     CHR 0xE0, CHR 0xB0, CHR 0xA8, CHR 0xE0, CHR 0xB0, CHR 0xB2, CHR 0xE0, CHR 0xB0, CHR 0x95,
     CHR 0xE0, CHR 0xB1, CHR 0x81] @ '' '' @ [CHR 0xE0, CHR 0xB0, CHR 0xB8, CHR 0xE0, CHR 0xB0,
     CHR 0xAE, CHR 0xE0, CHR 0xB0, CHR 0xBE, CHR 0xE0, CHR 0xB0, CHR 0xA7, CHR 0xE0, CHR 0xB0,
     CHR 0xBE, CHR 0xE0, CHR 0xB0, CHR 0xA8, CHR 0xE0, CHR 0xB0, CHR 0x82] @ '' '' @ [CHR 0xE0,
     CHR 0xB0, CHR 0x87, CHR 0xE0, CHR 0xB0, CHR 0xB5, CHR 0xE0, CHR 0xB1, CHR 0x8D, CHR 0xE0,
     CHR 0xB0, CHR 0xB5, CHR 0xE0, CHR 0xB0, CHR 0xA1, CHR 0xE0, CHR 0xB0, CHR 0x82, CHR 0xE0,
     CHR 0xB0, CHR 0xB2, CHR 0xE0, CHR 0xB1, CHR 0x8B] @ '' '' @ [CHR 0xE0, CHR 0xB0, CHR 0xAE,
     CHR 0xE0, CHR 0xB1, CHR 0x80, CHR 0xE0, CHR 0xB0, CHR 0x95, CHR 0xE0, CHR 0xB1, CHR 0x81] @
     '' '' @ [CHR 0xE0, CHR 0xB0, CHR 0xB8, CHR 0xE0, CHR 0xB0, CHR 0xB9, CHR 0xE0, CHR 0xB0,
     CHR 0xBE, CHR 0xE0, CHR 0xB0, CHR 0xAF, CHR 0xE0, CHR 0xB0, CHR 0xAA, CHR 0xE0, CHR 0xB0,
     CHR 0xA1, CHR 0xE0, CHR 0xB0, CHR 0x97, CHR 0xE0, CHR 0xB0, CHR 0xB2, CHR 0xE0, CHR 0xB0,
     CHR 0xA8, CHR 0xE0, CHR 0xB1, CHR 0x81] @ ''. '' @ [CHR 0xE0, CHR 0xB0, CHR 0xAE, CHR 0xE0,
     CHR 0xB1, CHR 0x80, CHR 0xE0, CHR 0xB0, CHR 0xB0, CHR 0xE0, CHR 0xB1, CHR 0x81] @ '' '' @
     [CHR 0xE0, CHR 0xB0, CHR 0xAB, CHR 0xE0, CHR 0xB1, CHR 0x88, CHR 0xE0, CHR 0xB0, CHR 0xB3,
     CHR 0xE0, CHR 0xB1, CHR 0x8D, CHR 0xE0, CHR 0xB0, CHR 0xB2, CHR 0xE0, CHR 0xB0, CHR 0xA8,
     CHR 0xE0, CHR 0xB1, CHR 0x81] @ '' '' @ [CHR 0xE0, CHR 0xB0, CHR 0x85, CHR 0xE0, CHR 0xB0,
     CHR 0xAA, CHR 0xE0, CHR 0xB1, CHR 0x8D, CHR 0xE2, CHR 0x80, CHR 0x8C, CHR 0xE0, CHR 0xB0,
     CHR 0xB2, CHR 0xE0, CHR 0xB1, CHR 0x8B, CHR 0xE0, CHR 0xB0, CHR 0xA1, CHR 0xE0, CHR 0xB1,
     CHR 0x8D] @ '' '' @ [CHR 0xE0, CHR 0xB0, CHR 0x9A, CHR 0xE0, CHR 0xB1, CHR 0x87, CHR 0xE0,
     CHR 0xB0, CHR 0xB8, CHR 0xE0, CHR 0xB0, CHR 0xBF] @ '' '' @ [CHR 0xE0, CHR 0xB0, CHR 0x89,
     CHR 0xE0, CHR 0xB0, CHR 0x82, CHR 0xE0, CHR 0xB0, CHR 0x9F, CHR 0xE0, CHR 0xB1, CHR 0x87] @
     '', '' @ [CHR 0xE0, CHR 0xB0, CHR 0x85, CHR 0xE0, CHR 0xB0, CHR 0xB5, CHR 0xE0, CHR 0xB0,
     CHR 0xBF] @ '' '' @ [CHR 0xE0, CHR 0xB0, CHR 0xB5, CHR 0xE0, CHR 0xB0, CHR 0xBF, CHR 0xE0,
     CHR 0xB0, CHR 0x9C, CHR 0xE0, CHR 0xB0, CHR 0xAF, CHR 0xE0, CHR 0xB0, CHR 0xB5, CHR 0xE0,
     CHR 0xB0, CHR 0x82, CHR 0xE0, CHR 0xB0, CHR 0xA4, CHR 0xE0, CHR 0xB0, CHR 0x82, CHR 0xE0,
     CHR 0xB0, CHR 0x97, CHR 0xE0, CHR 0xB0, CHR 0xBE] @ '' '' @ [CHR 0xE0, CHR 0xB0, CHR 0xAA,
     CHR 0xE0, CHR 0xB1, CHR 0x8D, CHR 0xE0, CHR 0xB0, CHR 0xB0, CHR 0xE0, CHR 0xB0, CHR 0xBE,
     CHR 0xE0, CHR 0xB0, CHR 0xB8, CHR 0xE0, CHR 0xB1, CHR 0x86, CHR 0xE0, CHR 0xB0, CHR 0xB8,
     CHR 0xE0, CHR 0xB1, CHR 0x8D] @ '' '' @ [CHR 0xE0, CHR 0xB0, CHR 0x9A, CHR 0xE0, CHR 0xB1,
     CHR 0x87, CHR 0xE0, CHR 0xB0, CHR 0xAF, CHR 0xE0, CHR 0xB0, CHR 0xAC, CHR 0xE0, CHR 0xB0,
     CHR 0xA1, CHR 0xE0, CHR 0xB1, CHR 0x8D, CHR 0xE0, CHR 0xB0, CHR 0xA1, CHR 0xE0, CHR 0xB0,
     CHR 0xBE, CHR 0xE0, CHR 0xB0, CHR 0xAF, CHR 0xE0, CHR 0xB0, CHR 0xA8, CHR 0xE0, CHR 0xB0,
     CHR 0xBF] @ '' '' @ [CHR 0xE0, CHR 0xB0, CHR 0xA8, CHR 0xE0, CHR 0xB0, CHR 0xBF, CHR 0xE0,
     CHR 0xB0, CHR 0xB0, CHR 0xE0, CHR 0xB1, CHR 0x8D, CHR 0xE0, CHR 0xB0, CHR 0xA7, CHR 0xE0,
     CHR 0xB0, CHR 0xBE, CHR 0xE0, CHR 0xB0, CHR 0xB0, CHR 0xE0, CHR 0xB0, CHR 0xBF, CHR 0xE0,
     CHR 0xB0, CHR 0x82, CHR 0xE0, CHR 0xB0, CHR 0x9A, CHR 0xE0, CHR 0xB1, CHR 0x81, CHR 0xE0,
     CHR 0xB0, CHR 0x95, CHR 0xE0, CHR 0xB1, CHR 0x8B, CHR 0xE0, CHR 0xB0, CHR 0x82, CHR 0xE0,
     CHR 0xB0, CHR 0xA1, CHR 0xE0, CHR 0xB0, CHR 0xBF] @ ''.''"

definition responses :: "string \<Rightarrow> string \<Rightarrow> string option" where
  "responses query code =
     (if code = ''en'' then Some (fallback_en query)
      else if code = ''hi'' then Some (fallback_hi query)
      else if code = ''ar'' then Some (fallback_ar query)
      else if code = ''te'' then Some (fallback_te query)
      else None)"

section \<open>Conversation history\<close>

text \<open>One line of the history text (the arrow function of \<open>getConversationHistory\<close>).\<close>

definition formatTurn :: "message \<Rightarrow> string" where
  "formatTurn msg =
     msg_role msg @ '': '' @ render (msg_content msg) @
     (case msg_files msg of
        None \<Rightarrow> []
      | Some n \<Rightarrow> if n = 0 then [] else '' (uploaded '' @ show_nat n @ '' file(s))'')"

text \<open>
  \<open>getConversationHistory(sessionId, limit = 10)\<close>. Nothing in its \<open>try\<close> block can throw,
  so the \<open>catch\<close> branch has no counterpart.
\<close>

definition getConversationHistory :: "service \<Rightarrow> string \<Rightarrow> nat \<Rightarrow> string" where
  "getConversationHistory s sessionId limit =
     (case conversationHistory s sessionId of
        None \<Rightarrow> ''No previous conversation in this session.''
      | Some history \<Rightarrow> join ''\<newline>'' (map formatTurn (slice_last limit history)))"

text \<open>
  \<open>storeConversation(sessionId, message)\<close>: \<open>push\<close>, then keep the last 50 when there are
  more. The array is the one held by the map, so the \<open>push\<close> is seen there.
\<close>

definition storeConversation :: "service \<Rightarrow> string \<Rightarrow> message \<Rightarrow> service" where
  "storeConversation s sessionId msg =
     (let history = (case conversationHistory s sessionId of None \<Rightarrow> [] | Some h \<Rightarrow> h) @ [msg]
      in s\<lparr>conversationHistory := (conversationHistory s)
             (sessionId \<mapsto> (if length history > 50 then slice_last 50 history else history))\<rparr>)"

text \<open>The stored log of a session, empty when there is none (\<open>get(sessionId) || []\<close>).\<close>

definition logOf :: "service \<Rightarrow> string \<Rightarrow> message list" where
  "logOf s sessionId = (case conversationHistory s sessionId of None \<Rightarrow> [] | Some h \<Rightarrow> h)"

text \<open>Storing a sequence of turns, one call of \<open>storeConversation\<close> for each.\<close>

definition storeAll :: "service \<Rightarrow> string \<Rightarrow> message list \<Rightarrow> service" where
  "storeAll s sessionId msgs = foldl (\<lambda>st m. storeConversation st sessionId m) s msgs"

section \<open>Answers without retrieval\<close>

text \<open>What \<open>ragQuery\<close>, \<open>getBasicResponse\<close> and \<open>fallbackResponse\<close> return.\<close>

record rag_result =
  res_text :: "string js"
  res_sources :: "string list"
  res_confidence :: rat
  res_language :: string
  res_timestamp :: string

text \<open>
  \<open>fallbackResponse(query, language)\<close>; \<open>now\<close> is the clock reading of
  \<open>new Date().toISOString()\<close>. Its \<open>text\<close> is \<open>responses[language] || responses.en\<close>: for
  an inherited key it is the inherited value and not a string.
\<close>

definition fallbackResponse :: "string \<Rightarrow> string \<Rightarrow> string \<Rightarrow> rag_result" where
  "fallbackResponse now query lang =
     \<lparr>res_text = orElse (getProperty (responses query) lang) (fallback_en query),
      res_sources = [''fallback''],
      res_confidence = 6 / 10,
      res_language = lang,
      res_timestamp = now\<rparr>"

definition basicPrompt :: "string \<Rightarrow> string \<Rightarrow> string" where
  "basicPrompt query lang =
     (let langConfig = langConfigFor lang in
       ''User asked in '' @ configName langConfig @ '': \"'' @ query @ ''\"\<newline>'' @
       ''                \<newline>'' @
       ''Respond in '' @ configName langConfig @
       '' language only as Ahad AI, a helpful multilingual assistant.\<newline>'' @
       ''Be friendly, informative, and helpful.\<newline>'' @
       ''If the user is asking about uploaded files but you don't have file context, '' @
       ''ask them to upload the file first.\<newline>'' @
       ''\<newline>'' @
       ''Response in '' @ configName langConfig @ '':'')"

text \<open>
  \<open>getBasicResponse(query, language)\<close>: asks the model with a short prompt and falls
  through to \<open>fallbackResponse\<close> when there is no model or the call throws. Building the
  short prompt reads only \<open>langConfig.name\<close> and does not throw. \<open>n\<close> is the number of
  calls of the model that the request has made before.
\<close>

definition getBasicResponse ::
  "service \<Rightarrow> nat \<Rightarrow> string \<Rightarrow> string \<Rightarrow> string \<Rightarrow> rag_result" where
  "getBasicResponse s n now query lang =
     (case llm s of
        Some invoke \<Rightarrow>
          (case invoke n (basicPrompt query lang) of
             Some response \<Rightarrow>
               \<lparr>res_text = Val response,
                res_sources = [''ollama_llm''],
                res_confidence = 8 / 10,
                res_language = lang,
                res_timestamp = now\<rparr>
           | None \<Rightarrow> fallbackResponse now query lang)
      | None \<Rightarrow> fallbackResponse now query lang)"

section \<open>Retrieval\<close>

text \<open>\<open>query.toLowerCase().split(' ').filter(w => w.length > 2)\<close>.\<close>

definition queryWords :: "string \<Rightarrow> string list" where
  "queryWords query = filter (\<lambda>w. length w > 2) (js_split (toLowerCase query))"

text \<open>
  \<open>searchInSessionFiles(query, sessionFiles)\<close>. \<open>matchCount\<close> is the \<open>matches\<close> of one
  file, \<open>fileDoc\<close> the object pushed for it, \<open>pushFile\<close> one round of the \<open>forEach\<close>.
\<close>

definition matchCount :: "string list \<Rightarrow> string \<Rightarrow> nat" where
  "matchCount qws c = length (filter (\<lambda>word. str_includes (toLowerCase c) word) qws)"

definition fileDoc :: "string list \<Rightarrow> file_context \<Rightarrow> string \<Rightarrow> retrieved_doc" where
  "fileDoc qws file c =
     \<lparr>pageContent =
        ''From uploaded file \"'' @ filename file @ ''\":\<newline>'' @ take 1000 c @ ''...'',
      doc_metadata =
        [''source'' \<mapsto> JStr ''session_file'',
         ''filename'' \<mapsto> JStr (filename file),
         ''type'' \<mapsto> JStr (file_type file),
         ''matchScore'' \<mapsto> JNum (of_nat (matchCount qws c) / of_nat (length qws))]\<rparr>"

definition pushFile :: "string list \<Rightarrow> retrieved_doc list \<Rightarrow> file_context \<Rightarrow> retrieved_doc list" where
  "pushFile qws results file =
     (case file_content file of
        None \<Rightarrow> results
      | Some c \<Rightarrow>
          if c = [] then results
          else if matchCount qws c > 0 then results @ [fileDoc qws file c]
          else results)"

definition searchInSessionFiles :: "string \<Rightarrow> file_context list \<Rightarrow> retrieved_doc list" where
  "searchInSessionFiles query sessionFiles =
     (if length (queryWords query) = 0 then []
      else take 2 (foldl (pushFile (queryWords query)) [] sessionFiles))"

text \<open>
  The context object of \<open>ragQuery\<close>; a caller may leave any of its properties out.
\<close>

record rag_context =
  ctx_history :: "string option"
  ctx_fileContext :: "string option"
  ctx_sessionId :: "string option"
  ctx_files :: "file_context list option"

text \<open>Step 1 of \<open>ragQuery\<close>: the filter over \<open>localKnowledge\<close>, \<open>slice(0, 3)\<close>, \<open>map\<close>.\<close>

definition docMatches :: "string list \<Rightarrow> knowledge_doc \<Rightarrow> bool" where
  "docMatches qws doc =
     (length qws = 0 \<or> list_ex (\<lambda>word. str_includes (toLowerCase (content doc)) word) qws)"

definition localSearch :: "service \<Rightarrow> string \<Rightarrow> retrieved_doc list" where
  "localSearch s query =
     map (\<lambda>doc. \<lparr>pageContent = content doc, doc_metadata = metadata doc\<rparr>)
       (take 3 (filter (docMatches (queryWords query)) (localKnowledge s)))"

text \<open>
  Step 2: the similarity search, when there is a vector store; \<open>None\<close> when the step
  is skipped or the search throws (the error is logged and dropped).
\<close>

definition chromaSearch :: "service \<Rightarrow> string \<Rightarrow> retrieved_doc list option" where
  "chromaSearch s query =
     (case vectorStore s of
        Some similaritySearch \<Rightarrow> if chromaInitialized s then similaritySearch query 2 else None
      | None \<Rightarrow> None)"

text \<open>
  Step 3: the files of the session named by the context; \<open>None\<close> when the step is
  skipped (no session id, unknown session, no files).
\<close>

definition sessionSearch :: "service \<Rightarrow> string \<Rightarrow> rag_context \<Rightarrow> retrieved_doc list option" where
  "sessionSearch s query context =
     (case ctx_sessionId context of
        None \<Rightarrow> None
      | Some sessionId \<Rightarrow>
          if sessionId = [] then None
          else (case sessionContexts s sessionId of
                  None \<Rightarrow> None
                | Some sessionContext \<Rightarrow>
                    if length (files sessionContext) > 0
                    then Some (searchInSessionFiles query (files sessionContext))
                    else None))"

text \<open>
  The retrieval part of \<open>ragQuery\<close> (its steps 1 to 3 and the final \<open>push\<close>): the passages
  and the list of source tags.
\<close>

definition retrieve :: "service \<Rightarrow> string \<Rightarrow> rag_context \<Rightarrow> retrieved_doc list \<times> string list" where
  "retrieve s query context =
     (let (docs1, sources1) = (localSearch s query, []);
          (docs2, sources2) =
            (case chromaSearch s query of
               Some chromaDocs \<Rightarrow> (docs1 @ chromaDocs, sources1 @ [''chromadb''])
             | None \<Rightarrow> (docs1, sources1));
          (docs3, sources3) =
            (case sessionSearch s query context of
               Some fileDocs \<Rightarrow>
                 (docs2 @ fileDocs,
                  if length fileDocs > 0 then sources2 @ [''session_files''] else sources2)
             | None \<Rightarrow> (docs2, sources2))
      in (docs3, sources3 @ [''local_knowledge'']))"

section \<open>The prompt\<close>

text \<open>
  The prompt that \<open>ragQuery\<close> builds. \<open>promptStart\<close> is the template it starts from,
  and each further function is one of the statements that extend the prompt, in the
  order of the code. A string property of the context counts when it is there and not
  empty. The statements that read a property of \<open>langConfig.instructions\<close> throw when
  the language is an inherited key; they return the error or the extended prompt.
\<close>

definition promptStart :: "string \<Rightarrow> retrieved_doc list \<Rightarrow> string" where
  "promptStart lang relevantDocs =
     (let contextText =
            (if length relevantDocs > 0 then join ''\<newline>\<newline>'' (map pageContent relevantDocs)
             else ''No specific context available. Use your general knowledge.'');
          langConfig = langConfigFor lang
      in ''You are Ahad AI, an intelligent multilingual assistant.\<newline>'' @
         ''\<newline>'' @
         ''IMPORTANT: You MUST respond EXCLUSIVELY in '' @ configName langConfig @
         '' language ('' @ toUpperCase lang @ '')!\<newline>'' @
         ''\<newline>'' @
         ''AVAILABLE LANGUAGES: English (en), Hindi (hi), Arabic (ar), Telugu (te)\<newline>'' @
         ''CURRENT RESPONSE LANGUAGE: '' @ configName langConfig @
         '' ('' @ toUpperCase lang @ '')\<newline>'' @
         ''\<newline>'' @
         ''CONTEXT INFORMATION:\<newline>'' @
         contextText)"

definition addFileContext :: "rag_context \<Rightarrow> string \<Rightarrow> string" where
  "addFileContext context p =
     (case ctx_fileContext context of
        None \<Rightarrow> p
      | Some fc \<Rightarrow>
          if fc \<noteq> [] \<and> trim fc \<noteq> []
          then p @ ''\<newline>\<newline>UPLOADED FILES INFORMATION:\<newline>'' @ fc @ ''\<newline>''
          else p)"

text \<open>\<open>context.files && context.files.length > 0\<close>, with the length when it holds.\<close>

definition contextFileCount :: "rag_context \<Rightarrow> nat" where
  "contextFileCount context = (case ctx_files context of None \<Rightarrow> 0 | Some fs \<Rightarrow> length fs)"

definition addFileCount :: "rag_context \<Rightarrow> string \<Rightarrow> string" where
  "addFileCount context p =
     (if contextFileCount context > 0
      then p @ ''\<newline>CURRENT SESSION HAS '' @ show_nat (contextFileCount context) @
             '' UPLOADED FILE(S).''
      else p)"

definition addHistory :: "rag_context \<Rightarrow> string \<Rightarrow> string" where
  "addHistory context p =
     (case ctx_history context of
        None \<Rightarrow> p
      | Some h \<Rightarrow>
          if h \<noteq> [] \<and> trim h \<noteq> ''No previous conversation''
          then p @ ''\<newline>\<newline>PREVIOUS CONVERSATION:\<newline>'' @ h
          else p)"

definition addQuery :: "string \<Rightarrow> string \<Rightarrow> string" where
  "addQuery query p = p @ ''\<newline>\<newline>USER QUERY: '' @ query"

definition addLanguageRules :: "string \<Rightarrow> string \<Rightarrow> exn + string" where
  "addLanguageRules lang p =
     (case configInstructions (langConfigFor lang) of
        Inl err \<Rightarrow> Inl err
      | Inr ins \<Rightarrow>
          Inr (p @ ''\<newline>\<newline>LANGUAGE-SPECIFIC INSTRUCTIONS:\<newline>'' @
                 ''1. Respond ONLY in '' @ configName (langConfigFor lang) @
                 '' ('' @ toUpperCase lang @ '')\<newline>'' @
                 ''2. '' @ instr_general ins @ ''\<newline>''))"

definition addImageInstructions :: "string \<Rightarrow> string \<Rightarrow> string \<Rightarrow> exn + string" where
  "addImageInstructions query lang p =
     (if str_includes (toLowerCase query) ''image'' \<or> str_includes (toLowerCase query) ''picture''
         \<or> str_includes (toLowerCase query) ''photo''
      then (case configInstructions (langConfigFor lang) of
              Inl err \<Rightarrow> Inl err
            | Inr ins \<Rightarrow>
                Inr (p @ ''3. '' @ instr_image ins @ ''\<newline>'' @
                       ''   - Describe visual elements, colors, objects, text\<newline>'' @
                       ''   - Mention composition and overall impression\<newline>'' @
                       ''   - If text is visible, read and interpret it\<newline>''))
      else Inr p)"

definition addDocumentInstructions :: "string \<Rightarrow> string \<Rightarrow> string \<Rightarrow> exn + string" where
  "addDocumentInstructions query lang p =
     (if str_includes (toLowerCase query) ''document'' \<or> str_includes (toLowerCase query) ''file''
         \<or> str_includes (toLowerCase query) ''pdf''
      then (case configInstructions (langConfigFor lang) of
              Inl err \<Rightarrow> Inl err
            | Inr ins \<Rightarrow>
                Inr (p @ ''3. '' @ instr_document ins @ ''\<newline>'' @
                       ''   - Summarize key points\<newline>'' @
                       ''   - Extract important information\<newline>'' @
                       ''   - Answer specific questions about content\<newline>''))
      else Inr p)"

definition addFileInstruction :: "string \<Rightarrow> rag_context \<Rightarrow> string \<Rightarrow> exn + string" where
  "addFileInstruction lang context p =
     (if contextFileCount context > 0
      then (case configInstructions (langConfigFor lang) of
              Inl err \<Rightarrow> Inl err
            | Inr ins \<Rightarrow> Inr (p @ ''3. '' @ instr_file ins @ ''\<newline>''))
      else Inr p)"

definition addGuidelines :: "string \<Rightarrow> string \<Rightarrow> string" where
  "addGuidelines lang p =
     p @ ''\<newline>GENERAL GUIDELINES:\<newline>'' @
       ''- Be helpful, friendly, and informative\<newline>'' @
       ''- If context is relevant, use it\<newline>'' @
       ''- If no context, use general knowledge\<newline>'' @
       ''- Maintain conversation flow\<newline>'' @
       ''- Keep responses concise but complete\<newline>'' @
       ''\<newline>RESPONSE IN '' @ toUpperCase lang @ '':\<newline>''"

text \<open>The statements in their order; the first error ends the building.\<close>

definition enhancedPrompt ::
  "string \<Rightarrow> string \<Rightarrow> rag_context \<Rightarrow> retrieved_doc list \<Rightarrow> exn + string" where
  "enhancedPrompt query lang context relevantDocs =
     (case addLanguageRules lang
             (addQuery query
               (addHistory context
                 (addFileCount context
                   (addFileContext context
                     (promptStart lang relevantDocs))))) of
        Inl err \<Rightarrow> Inl err
      | Inr p5 \<Rightarrow>
          (case addImageInstructions query lang p5 of
             Inl err \<Rightarrow> Inl err
           | Inr p6 \<Rightarrow>
               (case addDocumentInstructions query lang p6 of
                  Inl err \<Rightarrow> Inl err
                | Inr p7 \<Rightarrow>
                    (case addFileInstruction lang context p7 of
                       Inl err \<Rightarrow> Inl err
                     | Inr p8 \<Rightarrow> Inr (addGuidelines lang p8)))))"

section \<open>The retrieval-augmented query\<close>

text \<open>
  The \<open>try\<close> block of \<open>ragQuery\<close>: retrieval (the vector search has a \<open>try\<close> of its own),
  the prompt, the call of the model, which is the first call of the request. It ends
  with the result or with what was thrown: by the prompt, or by the call.
\<close>

definition ragQueryTry ::
  "service \<Rightarrow> llm_backend \<Rightarrow> string \<Rightarrow> string \<Rightarrow> string \<Rightarrow> rag_context \<Rightarrow> exn + rag_result" where
  "ragQueryTry s invoke now query lang context =
     (let (relevantDocs, srcs) = retrieve s query context
      in case enhancedPrompt query lang context relevantDocs of
           Inl err \<Rightarrow> Inl err
         | Inr prompt \<Rightarrow>
             (case invoke 0 prompt of
                None \<Rightarrow> Inl CallFailed
              | Some response \<Rightarrow>
                  Inr \<lparr>res_text = Val response,
                       res_sources = srcs,
                       res_confidence = 9 / 10,
                       res_language = lang,
                       res_timestamp = now\<rparr>))"

text \<open>
  How many calls of the model the \<open>try\<close> block has made when it ends with an error.
\<close>

definition callsMade :: "exn \<Rightarrow> nat" where
  "callsMade err = (case err of TypeError \<Rightarrow> 0 | CallFailed \<Rightarrow> 1)"

text \<open>
  \<open>ragQuery(query, language, context)\<close>: the guard, the \<open>try\<close> block, and the \<open>catch\<close>,
  which hands over to \<open>getBasicResponse\<close> whatever was thrown.
\<close>

definition ragQuery :: "service \<Rightarrow> string \<Rightarrow> string \<Rightarrow> string \<Rightarrow> rag_context \<Rightarrow> rag_result" where
  "ragQuery s now query lang context =
     (case llm s of
        None \<Rightarrow> fallbackResponse now query lang
      | Some invoke \<Rightarrow>
          if \<not> isReady s then fallbackResponse now query lang
          else
            (case ragQueryTry s invoke now query lang context of
               Inr result \<Rightarrow> result
             | Inl err \<Rightarrow> getBasicResponse s (callsMade err) now query lang))"

section \<open>The knowledge base\<close>




section \<open>Sentiment and intent\<close>

text \<open>
  What the service takes from outside: the clock (\<open>clock k\<close> is what
  \<open>new Date().toISOString()\<close> returns at the \<open>k\<close>-th of the six places where
  \<open>processWithRAG\<close> and the functions it calls read it, counted from 0 in the order of
  the code), the score of the sentiment analyzer (\<open>None\<close> when it throws; a rational
  stands for the floating-point score) and the text that \<open>formatFileSize\<close> computes in
  floating point for a size other than 0.
\<close>

record env =
  clock :: "nat \<Rightarrow> string"
  sentimentScore :: "string \<Rightarrow> rat option"
  sizeText :: "nat \<Rightarrow> string"

definition formatFileSize :: "env \<Rightarrow> nat \<Rightarrow> string" where
  "formatFileSize e bytes = (if bytes = 0 then ''0 Bytes'' else sizeText e bytes)"

definition analyzeSentiment :: "env \<Rightarrow> string \<Rightarrow> string \<Rightarrow> string" where
  "analyzeSentiment e txt lang =
     (if lang \<noteq> ''en'' then ''neutral''
      else (case sentimentScore e txt of
              None \<Rightarrow> ''neutral''
            | Some score \<Rightarrow>
                if score > 2 / 10 then ''positive''
                else if score < - (2 / 10) then ''negative''
                else ''neutral''))"

definition detectIntent :: "string \<Rightarrow> string \<Rightarrow> string" where
  "detectIntent txt lang =
     (let textLower = toLowerCase txt in
      if str_includes textLower ''upload'' \<or> str_includes textLower ''file''
         \<or> str_includes textLower ''attach''
      then ''file_upload''
      else if str_includes textLower ''image'' \<or> str_includes textLower ''picture''
         \<or> str_includes textLower ''photo''
      then ''image_analysis''
      else if str_includes textLower ''document'' \<or> str_includes textLower ''pdf''
         \<or> str_includes textLower ''word''
      then ''document_analysis''
      else if str_includes textLower ''search'' \<or> str_includes textLower ''find''
      then ''search''
      else if str_includes textLower ''analyze'' \<or> str_includes textLower ''explain''
         \<or> str_includes textLower ''describe''
      then ''analysis''
      else if str_includes textLower ''calculate'' \<or> str_includes textLower ''math''
      then ''calculate''
      else if str_includes textLower ''translate'' \<or> str_includes textLower ''language''
      then ''translate''
      else if str_includes textLower ''hello'' \<or> str_includes textLower ''hi''
         \<or> str_includes textLower
              [CHR 0xE0, CHR 0xA4, CHR 0xA8, CHR 0xE0, CHR 0xA4, CHR 0xAE, CHR 0xE0, CHR 0xA4,
               CHR 0xB8, CHR 0xE0, CHR 0xA5, CHR 0x8D, CHR 0xE0, CHR 0xA4, CHR 0xA4, CHR 0xE0,
               CHR 0xA5, CHR 0x87]
         \<or> str_includes textLower
              [CHR 0xD9, CHR 0x85, CHR 0xD8, CHR 0xB1, CHR 0xD8, CHR 0xAD, CHR 0xD8, CHR 0xA8,
               CHR 0xD8, CHR 0xA7]
         \<or> str_includes textLower
              [CHR 0xE0, CHR 0xB0, CHR 0xB9, CHR 0xE0, CHR 0xB0, CHR 0xB2, CHR 0xE0, CHR 0xB1,
               CHR 0x8B]
      then ''greeting''
      else if str_includes textLower ''help''
      then ''help''
      else ''general'')"

section \<open>The orchestrator\<close>

record options =
  opt_message :: string
  opt_language :: string
  opt_sessionId :: string
  opt_useRAG :: bool
  opt_analyzeSentiment :: bool
  opt_files :: "file_context list"
  opt_newFiles :: "file_context list"

record response =
  r_text :: "string js"
  r_sentiment :: string
  r_intent :: string
  r_sources :: "string list"
  r_confidence :: rat
  r_language :: string
  r_shouldSpeak :: bool
  r_sessionId :: string
  r_fileCount :: nat
  r_timestamp :: string

text \<open>One round of the \<open>forEach\<close> that builds the text of the new files.\<close>

definition appendFileText :: "env \<Rightarrow> string \<Rightarrow> file_context \<Rightarrow> string" where
  "appendFileText e acc file =
     (case file_content file of
        None \<Rightarrow> acc
      | Some c \<Rightarrow>
          if c = [] then acc
          else acc @ ''\<newline>\<newline>=== File: '' @ filename file @ '' ===\<newline>'' @
                 ''Type: '' @ file_type file @ ''\<newline>'' @
                 ''Size: '' @ formatFileSize e (file_size file) @ ''\<newline>'' @
                 ''Content: '' @ c @ ''\<newline>'')"

text \<open>
  The session entry after the first part of \<open>processWithRAG\<close>: created when the id is
  new, its language set, the new files appended.
\<close>

definition updateSession :: "env \<Rightarrow> service \<Rightarrow> options \<Rightarrow> session_context" where
  "updateSession e s opts =
     (let created =
            (case sessionContexts s (opt_sessionId opts) of
               None \<Rightarrow> \<lparr>files = [], fileContext = [], lastUpdated = clock e 0,
                         language = opt_language opts\<rparr>
             | Some sc \<Rightarrow> sc);
          sc1 = created\<lparr>language := opt_language opts\<rparr>
      in if length (opt_newFiles opts) > 0
         then (let built = foldl (appendFileText e) [] (opt_newFiles opts)
               in sc1\<lparr>files := files sc1 @ opt_newFiles opts,
                       fileContext := (if built \<noteq> [] then fileContext sc1 @ built
                                       else fileContext sc1),
                       lastUpdated := clock e 1\<rparr>)
         else sc1)"

text \<open>The context object that \<open>processWithRAG\<close> hands to \<open>ragQuery\<close>.\<close>

definition ragContext :: "env \<Rightarrow> service \<Rightarrow> options \<Rightarrow> rag_context" where
  "ragContext e s opts =
     \<lparr>ctx_history = Some (getConversationHistory s (opt_sessionId opts) 10),
      ctx_fileContext = Some (fileContext (updateSession e s opts)),
      ctx_sessionId = Some (opt_sessionId opts),
      ctx_files = Some (files (updateSession e s opts))\<rparr>"

text \<open>
  \<open>processWithRAG(options)\<close> for a language that is a string: the service afterwards
  and the result. On a string the \<open>toUpperCase\<close> before the \<open>try\<close> block does not throw.
  Inside the block every call catches what it throws (\<open>ragQuery\<close> by its \<open>catch\<close>, the
  others by a \<open>try\<close> of their own), so the \<open>catch\<close> of the block has no counterpart.
  \<open>sources\<close> is an array, which \<open>||\<close> never replaces.
\<close>

definition processWithRAG :: "env \<Rightarrow> service \<Rightarrow> options \<Rightarrow> service \<times> response" where
  "processWithRAG e s opts =
     (let message = opt_message opts;
          lang = opt_language opts;
          sessionId = opt_sessionId opts;
          sessionContext = updateSession e s opts;
          s1 = s\<lparr>sessionContexts := (sessionContexts s)(sessionId \<mapsto> sessionContext)\<rparr>;
          ragResult = ragQuery s1 (clock e 2) message lang (ragContext e s opts);
          sentiment =
            (if opt_analyzeSentiment opts \<and> lang = ''en'' then analyzeSentiment e message lang
             else ''neutral'');
          intent = detectIntent message lang;
          s2 = storeConversation s1 sessionId
                 \<lparr>msg_role = ''user'', msg_content = Val message, msg_language = lang,
                  msg_files = Some (length (opt_files opts)), msg_timestamp = clock e 3\<rparr>;
          s3 = storeConversation s2 sessionId
                 \<lparr>msg_role = ''assistant'', msg_content = res_text ragResult,
                  msg_language = lang, msg_files = None, msg_timestamp = clock e 4\<rparr>
      in (s3,
          \<lparr>r_text = res_text ragResult,
           r_sentiment = sentiment,
           r_intent = intent,
           r_sources = res_sources ragResult,
           r_confidence =
             (if res_confidence ragResult = 0 then 8 / 10 else res_confidence ragResult),
           r_language = lang,
           r_shouldSpeak = True,
           r_sessionId = sessionId,
           r_fileCount = length (files sessionContext),
           r_timestamp = clock e 5\<rparr>))"

text \<open>
  \<open>processWithRAG(options)\<close> as the route calls it: the language is the property of the
  request body, any JSON value (the default \<open>en\<close> stands in only when there is none);
  \<open>opts\<close> holds the other properties. The first statement, before the \<open>try\<close> block,
  calls \<open>language.toUpperCase()\<close>: for a value that is not a string this throws a
  \<open>TypeError\<close>, which leaves the function; for a string the function goes on as above,
  with that language.
\<close>

definition processWithRAG_json ::
  "env \<Rightarrow> service \<Rightarrow> options \<Rightarrow> jsval \<Rightarrow> exn + service \<times> response" where
  "processWithRAG_json e s opts langValue =
     (case langValue of
        JStr lang \<Rightarrow> Inr (processWithRAG e s (opts\<lparr>opt_language := lang\<rparr>))
      | _ \<Rightarrow> Inl TypeError)"

section \<open>Session inspection and eviction\<close>

record clear_result =
  clear_success :: bool
  clear_message :: string
  clear_timestamp :: string

text \<open>\<open>clearSession(sessionId)\<close>; deleting from a \<open>Map\<close> does not throw.\<close>

definition clearSession :: "service \<Rightarrow> string \<Rightarrow> string \<Rightarrow> service \<times> clear_result" where
  "clearSession s now sessionId =
     (s\<lparr>sessionContexts := (sessionContexts s)(sessionId := None),
        conversationHistory := (conversationHistory s)(sessionId := None)\<rparr>,
      \<lparr>clear_success = True,
       clear_message = ''Session '' @ sessionId @ '' cleared successfully'',
       clear_timestamp = now\<rparr>)"

text \<open>The object that \<open>getSessionInfo\<close> returns; only \<open>exists\<close> is always there.\<close>

record session_info =
  info_exists :: bool
  info_message :: "string option"
  info_sessionId :: "string option"
  info_language :: "string option"
  info_fileCount :: "nat option"
  info_messageCount :: "nat option"
  info_lastUpdated :: "string option"
  info_timestamp :: "string option"

definition getSessionInfo :: "service \<Rightarrow> string \<Rightarrow> string \<Rightarrow> session_info" where
  "getSessionInfo s now sessionId =
     (case sessionContexts s sessionId of
        None \<Rightarrow>
          \<lparr>info_exists = False, info_message = Some ''Session not found'',
           info_sessionId = None, info_language = None, info_fileCount = None,
           info_messageCount = None, info_lastUpdated = None, info_timestamp = None\<rparr>
      | Some session \<Rightarrow>
          \<lparr>info_exists = True, info_message = None,
           info_sessionId = Some sessionId,
           info_language = Some (if language session = [] then ''en'' else language session),
           info_fileCount = Some (length (files session)),
           info_messageCount = Some (length (logOf s sessionId)),
           info_lastUpdated = Some (lastUpdated session),
           info_timestamp = Some now\<rparr>)"

section \<open>Start-up\<close>

text \<open>The fields as the constructor sets them.\<close>

definition constructor :: service where
  "constructor =
     \<lparr>vectorStore = None, llm = None, isReady = False, localKnowledge = [],
      conversationHistory = Map.empty, chromaInitialized = False,
      sessionContexts = Map.empty\<rparr>"

definition systemMeta :: "string \<Rightarrow> metadata" where
  "systemMeta ty =
     [''source'' \<mapsto> JStr ''system'',
      ''type'' \<mapsto> JStr ty,
      ''languages'' \<mapsto> JArr [JStr ''en'', JStr ''hi'', JStr ''ar'', JStr ''te'']]"

definition initializeLocalStorage :: "service \<Rightarrow> service" where
  "initializeLocalStorage s =
     s\<lparr>localKnowledge :=
        [\<lparr>content = ''Ahad AI is a multilingual assistant supporting English, Hindi, Arabic, and Telugu'',
          metadata = systemMeta ''multilingual''\<rparr>,
         \<lparr>content = ''The assistant can analyze uploaded files including images, PDFs, and documents in any supported language'',
          metadata = systemMeta ''file_support''\<rparr>,
         \<lparr>content = ''For image analysis, describe visual elements, colors, objects, text, and overall composition'',
          metadata = systemMeta ''image_analysis''\<rparr>,
         \<lparr>content = ''For document analysis, summarize content, extract key points, identify themes, and answer specific questions'',
          metadata = systemMeta ''document_analysis''\<rparr>,
         \<lparr>content = ''The assistant maintains conversation context and can remember uploaded files within a session'',
          metadata = systemMeta ''memory''\<rparr>]\<rparr>"

text \<open>
  \<open>initialize()\<close> on its main path: the model object is created, the vector store is
  connected (\<open>Some\<close>) or skipped (\<open>None\<close>), the local knowledge is loaded, the service is
  ready.
\<close>

definition initialize :: "llm_backend \<Rightarrow> vector_store option \<Rightarrow> service" where
  "initialize invoke chroma =
     (let s1 = constructor\<lparr>llm := Some invoke\<rparr>;
          s2 = (case chroma of
                  Some store \<Rightarrow> s1\<lparr>vectorStore := Some store, chromaInitialized := True\<rparr>
                | None \<Rightarrow> s1\<lparr>vectorStore := None\<rparr>);
          s3 = initializeLocalStorage s2
      in s3\<lparr>isReady := True\<rparr>)"

section \<open>Example inputs\<close>

text \<open>Concrete collaborators, services and requests, used to run the model.\<close>

definition example_env :: env where
  "example_env =
     \<lparr>clock = (\<lambda>k. ''t'' @ show_nat k),
      sentimentScore = (\<lambda>t. Some 0),
      sizeText = (\<lambda>n. show_nat n @ '' Bytes'')\<rparr>"

definition example_turn :: "nat \<Rightarrow> message" where
  "example_turn k =
     \<lparr>msg_role = ''user'', msg_content = Val (''turn '' @ show_nat k), msg_language = ''en'',
      msg_files = Some 0, msg_timestamp = ''t''\<rparr>"

text \<open>A service whose session \<open>s1\<close> holds a log of 50 turns.\<close>

definition full_log_service :: service where
  "full_log_service =
     constructor\<lparr>conversationHistory := [''s1'' \<mapsto> map example_turn [0..<50]]\<rparr>"

text \<open>A session without files, last updated at \<open>yesterday\<close>, and a service that holds it.\<close>

definition old_session :: session_context where
  "old_session =
     \<lparr>files = [], fileContext = [], lastUpdated = ''yesterday'', language = ''en''\<rparr>"

definition one_session_service :: service where
  "one_session_service = constructor\<lparr>sessionContexts := [''s1'' \<mapsto> old_session]\<rparr>"

definition notes_file :: file_context where
  "notes_file =
     \<lparr>filename = ''notes.txt'', file_type = ''document'', file_size = 18,
      file_content = Some ''invoice total $500''\<rparr>"

definition request :: "string \<Rightarrow> string \<Rightarrow> string \<Rightarrow> file_context list \<Rightarrow> options" where
  "request message lang sessionId newFiles =
     \<lparr>opt_message = message, opt_language = lang, opt_sessionId = sessionId,
      opt_useRAG = True, opt_analyzeSentiment = True, opt_files = newFiles,
      opt_newFiles = newFiles\<rparr>"

text \<open>A session log of twelve turns.\<close>

definition long_log_service :: service where
  "long_log_service =
     constructor\<lparr>conversationHistory :=
       [''s1'' \<mapsto> map example_turn [0, 1, 2, 3, 4, 5, 6, 7, 8, 9, 10, 11]]\<rparr>"

text \<open>
  Three inference backends: one whose every call throws, one whose first call of a
  request throws and whose later calls answer, and one that answers with the prompt
  it was given.
\<close>

definition llm_down :: llm_backend where
  "llm_down = (\<lambda>n prompt. None)"

definition llm_retry_only :: llm_backend where
  "llm_retry_only = (\<lambda>n prompt. if n = 0 then None else Some ''Hello, I am Ahad AI.'')"

definition llm_echo :: llm_backend where
  "llm_echo = (\<lambda>n prompt. Some prompt)"




text \<open>
  The context of a caller that passes none of the properties, and one that names the
  session \<open>s1\<close>.
\<close>

definition empty_context :: rag_context where
  "empty_context =
     \<lparr>ctx_history = None, ctx_fileContext = None, ctx_sessionId = None, ctx_files = None\<rparr>"

definition session_context_s1 :: rag_context where
  "session_context_s1 =
     \<lparr>ctx_history = None, ctx_fileContext = None, ctx_sessionId = Some ''s1'',
      ctx_files = None\<rparr>"

text \<open>A vector store with one hit for every query, and a ready service that has it and
  a session \<open>s1\<close> holding one file.\<close>

definition example_store :: vector_store where
  "example_store =
     (\<lambda>query k. Some [\<lparr>pageContent = ''vector hit'', doc_metadata = Map.empty\<rparr>])"

definition files_session_service :: service where
  "files_session_service =
     (initialize llm_echo (Some example_store))
       \<lparr>sessionContexts := [''s1'' \<mapsto> old_session\<lparr>files := [notes_file]\<rparr>]\<rparr>"

section \<open>Properties of the conversation log\<close>

lemma logOf_storeConversation:
  "logOf (storeConversation s sid m) sid = drop (length (logOf s sid @ [m]) - 50) (logOf s sid @ [m])"
  by (simp add: logOf_def storeConversation_def slice_last_def Let_def split: option.splits)

lemma logOf_storeConversation_other:
  "sid' \<noteq> sid \<Longrightarrow> logOf (storeConversation s sid m) sid' = logOf s sid'"
  by (simp add: logOf_def storeConversation_def Let_def)

lemma drop_last50_snoc:
  "drop (length (drop (length xs - 50) xs @ [m]) - 50) (drop (length xs - 50) xs @ [m])
     = drop (length (xs @ [m]) - 50) (xs @ [m])"
proof (cases "length xs \<le> 50")
  case True
  then show ?thesis by simp
next
  case False
  then have "Suc (length xs - 50) = length xs - 49" by arith
  with False show ?thesis by simp
qed

lemma logOf_storeAll:
  "ms \<noteq> [] \<Longrightarrow>
   logOf (storeAll s sid ms) sid = drop (length (logOf s sid @ ms) - 50) (logOf s sid @ ms)"
proof (induction ms rule: rev_induct)
  case Nil
  then show ?case by simp
next
  case (snoc m ms)
  have step: "storeAll s sid (ms @ [m]) = storeConversation (storeAll s sid ms) sid m"
    by (simp add: storeAll_def)
  show ?case
  proof (cases "ms = []")
    case True
    then show ?thesis
      by (simp add: storeAll_def logOf_storeConversation)
  next
    case False
    with snoc.IH have ih:
      "logOf (storeAll s sid ms) sid = drop (length (logOf s sid @ ms) - 50) (logOf s sid @ ms)"
      by simp
    show ?thesis
      unfolding step logOf_storeConversation ih
      using drop_last50_snoc [of "logOf s sid @ ms" m] by simp
  qed
qed

text \<open>
  C6. After \<open>storeConversation\<close> the log of the session holds at most 50 turns, whatever
  it held before; storing into a log of 50 turns drops the oldest one and keeps the rest
  in their order, followed by the new turn; and after any non-empty sequence of stored
  turns the log is the last 50 entries of the old log followed by the new turns.
\<close>

theorem storeConversation_fifo_cap:
  "length (logOf (storeConversation s sid m) sid) \<le> 50
   \<and> conversationHistory (storeConversation s sid m) sid
       = Some (logOf (storeConversation s sid m) sid)
   \<and> (length (logOf s sid) = 50 \<longrightarrow>
        logOf (storeConversation s sid m) sid = tl (logOf s sid) @ [m])
   \<and> (ms \<noteq> [] \<longrightarrow>
        length (logOf (storeAll s sid ms) sid) \<le> 50
        \<and> logOf (storeAll s sid ms) sid
            = drop (length (logOf s sid @ ms) - 50) (logOf s sid @ ms))"
proof (intro conjI impI)
  show "length (logOf (storeConversation s sid m) sid) \<le> 50"
    by (simp add: logOf_storeConversation)
  show "conversationHistory (storeConversation s sid m) sid
          = Some (logOf (storeConversation s sid m) sid)"
    by (simp add: logOf_def storeConversation_def Let_def)
  show "logOf (storeConversation s sid m) sid = tl (logOf s sid) @ [m]"
    if "length (logOf s sid) = 50"
    using that by (simp add: logOf_storeConversation drop_Suc)
  show "length (logOf (storeAll s sid ms) sid) \<le> 50" if "ms \<noteq> []"
    using that by (simp add: logOf_storeAll)
  show "logOf (storeAll s sid ms) sid
          = drop (length (logOf s sid @ ms) - 50) (logOf s sid @ ms)" if "ms \<noteq> []"
    using that by (rule logOf_storeAll)
qed

text \<open>The witness of C6: a log of 50 turns, one more turn, then two more turns.\<close>

theorem storeConversation_fifo_cap_witness:
  "length (logOf full_log_service ''s1'') = 50
   \<and> [example_turn 50, example_turn 51] \<noteq> []
   \<and> logOf (storeConversation full_log_service ''s1'' (example_turn 50)) ''s1''
       = tl (logOf full_log_service ''s1'') @ [example_turn 50]
   \<and> length (logOf (storeAll full_log_service ''s1'' [example_turn 50, example_turn 51]) ''s1'')
       \<le> 50
   \<and> logOf (storeAll full_log_service ''s1'' [example_turn 50, example_turn 51]) ''s1''
       = drop 2 (logOf full_log_service ''s1'') @ [example_turn 50, example_turn 51]"
  using storeConversation_fifo_cap [of full_log_service "''s1''" "example_turn 50"
      "[example_turn 50, example_turn 51]"]
  by (simp add: logOf_def full_log_service_def constructor_def)

section \<open>Properties of the session registry\<close>

lemma sessionContexts_storeConversation:
  "sessionContexts (storeConversation s sid m) = sessionContexts s"
  by (simp add: storeConversation_def Let_def)

lemma sessionContexts_processWithRAG:
  "sessionContexts (fst (processWithRAG e s opts)) (opt_sessionId opts)
     = Some (updateSession e s opts)"
  by (simp add: processWithRAG_def Let_def sessionContexts_storeConversation)

text \<open>
  C7. For a session of the registry, a request without new files leaves \<open>lastUpdated\<close>,
  \<open>files\<close> and the file context of the session as they were, and a request with new
  files sets \<open>lastUpdated\<close> to the clock reading taken at the update and appends the
  files.
\<close>

theorem appendFiles_lastUpdated:
  assumes "sessionContexts s (opt_sessionId opts) = Some sc"
  shows "(opt_newFiles opts = [] \<longrightarrow>
            (\<exists>sc'. sessionContexts (fst (processWithRAG e s opts)) (opt_sessionId opts) = Some sc'
               \<and> lastUpdated sc' = lastUpdated sc \<and> files sc' = files sc
               \<and> fileContext sc' = fileContext sc))
       \<and> (opt_newFiles opts \<noteq> [] \<longrightarrow>
            (\<exists>sc'. sessionContexts (fst (processWithRAG e s opts)) (opt_sessionId opts) = Some sc'
               \<and> lastUpdated sc' = clock e 1 \<and> files sc' = files sc @ opt_newFiles opts))"
  using assms by (simp add: sessionContexts_processWithRAG updateSession_def Let_def)

text \<open>
  The witness of C7: the session \<open>s1\<close>, last updated at \<open>yesterday\<close>, once without and
  once with a new file.
\<close>

theorem appendFiles_lastUpdated_witness:
  "sessionContexts one_session_service ''s1'' = Some old_session
   \<and> opt_newFiles (request ''hello'' ''en'' ''s1'' []) = []
   \<and> opt_newFiles (request ''hello'' ''en'' ''s1'' [notes_file]) \<noteq> []
   \<and> (\<exists>sc'. sessionContexts
               (fst (processWithRAG example_env one_session_service
                      (request ''hello'' ''en'' ''s1'' []))) ''s1'' = Some sc'
         \<and> lastUpdated sc' = ''yesterday'' \<and> files sc' = [] \<and> fileContext sc' = [])
   \<and> (\<exists>sc'. sessionContexts
               (fst (processWithRAG example_env one_session_service
                      (request ''hello'' ''en'' ''s1'' [notes_file]))) ''s1'' = Some sc'
         \<and> lastUpdated sc' = ''t1'' \<and> files sc' = [notes_file])"
  using appendFiles_lastUpdated [of one_session_service "request ''hello'' ''en'' ''s1'' []"
      old_session example_env]
    appendFiles_lastUpdated [of one_session_service
      "request ''hello'' ''en'' ''s1'' [notes_file]" old_session example_env]
  by (simp add: one_session_service_def constructor_def old_session_def request_def
      example_env_def show_nat.simps)

text \<open>
  C8, as the code has it. For a session id that the registry does not hold,
  \<open>getSessionInfo\<close> answers \<open>exists: false\<close> with the message \<open>Session not found\<close>, and
  \<open>clearSession\<close> answers \<open>success: true\<close> with the message that the session was
  cleared, and leaves the registry as it was.
\<close>

theorem unknown_session_inspect_and_clear:
  assumes "sessionContexts s sid = None"
  shows "info_exists (getSessionInfo s now sid) = False
       \<and> info_message (getSessionInfo s now sid) = Some ''Session not found''
       \<and> clear_success (snd (clearSession s now sid)) = True
       \<and> clear_message (snd (clearSession s now sid))
           = ''Session '' @ sid @ '' cleared successfully''
       \<and> sessionContexts (fst (clearSession s now sid)) = sessionContexts s
       \<and> conversationHistory (fst (clearSession s now sid)) sid = None"
  using assms by (auto simp add: getSessionInfo_def clearSession_def)

text \<open>The witness of C8: the id \<open>s2\<close> in a registry that holds only \<open>s1\<close>.\<close>

theorem unknown_session_inspect_and_clear_witness:
  "sessionContexts one_session_service ''s2'' = None
   \<and> info_exists (getSessionInfo one_session_service ''t0'' ''s2'') = False
   \<and> info_message (getSessionInfo one_session_service ''t0'' ''s2'')
       = Some ''Session not found''
   \<and> clear_success (snd (clearSession one_session_service ''t0'' ''s2'')) = True
   \<and> clear_message (snd (clearSession one_session_service ''t0'' ''s2''))
       = ''Session s2 cleared successfully''"
  using unknown_session_inspect_and_clear [of one_session_service "''s2''" "''t0''"]
  by (simp add: one_session_service_def constructor_def)

text \<open>
  C8 as stated fails: on a service that holds no session at all, \<open>clearSession\<close> on the
  id \<open>ghost\<close> reports success.
\<close>

theorem clearSession_unknown_reports_success:
  "sessionContexts constructor ''ghost'' = None
   \<and> clear_success (snd (clearSession constructor ''t0'' ''ghost'')) = True
   \<and> clear_message (snd (clearSession constructor ''t0'' ''ghost''))
       = ''Session ghost cleared successfully''"
  by (simp add: clearSession_def constructor_def)

section \<open>Properties of the string functions\<close>

lemmas string_defs = toLowerCase_def toLowerChar_def toUpperCase_def toUpperChar_def
  trim_def isWhitespace_def

lemmas startup_defs = initialize_def initializeLocalStorage_def constructor_def systemMeta_def

lemma take_length_eq_iff: "take (length w) s = w \<longleftrightarrow> (\<exists>b. s = w @ b)"
proof
  assume "take (length w) s = w"
  then have "s = w @ drop (length w) s" by (metis append_take_drop_id)
  then show "\<exists>b. s = w @ b" ..
next
  assume "\<exists>b. s = w @ b"
  then show "take (length w) s = w" by auto
qed

text \<open>\<open>str_includes\<close> is occurrence as a contiguous piece.\<close>

lemma str_includes_iff: "str_includes s w \<longleftrightarrow> (\<exists>a b. s = a @ w @ b)"
proof (induction s)
  case Nil
  then show ?case by auto
next
  case (Cons c cs)
  show ?case
  proof
    assume "str_includes (c # cs) w"
    then consider "take (length w) (c # cs) = w" | "str_includes cs w" by auto
    then show "\<exists>a b. c # cs = a @ w @ b"
    proof cases
      case 1
      then obtain b where "c # cs = w @ b" using take_length_eq_iff by blast
      then have "c # cs = [] @ w @ b" by simp
      then show ?thesis by blast
    next
      case 2
      with Cons.IH obtain a b where "cs = a @ w @ b" by blast
      then have "c # cs = (c # a) @ w @ b" by simp
      then show ?thesis by blast
    qed
  next
    assume "\<exists>a b. c # cs = a @ w @ b"
    then obtain a b where ab: "c # cs = a @ w @ b" by blast
    show "str_includes (c # cs) w"
    proof (cases a)
      case Nil
      with ab have "take (length w) (c # cs) = w" using take_length_eq_iff by fastforce
      then show ?thesis by simp
    next
      case (Cons x a')
      with ab have "cs = a' @ w @ b" by simp
      with Cons.IH have "str_includes cs w" by blast
      then show ?thesis by simp
    qed
  qed
qed

lemma str_includes_sublist: "str_includes s w \<longleftrightarrow> sublist w s"
  by (auto simp add: str_includes_iff sublist_def)

lemma str_includes_Nil: "str_includes s []"
  by (cases s) simp_all

lemma str_includes_append_left: "str_includes p w \<Longrightarrow> str_includes (p @ q) w"
  unfolding str_includes_iff by (metis append.assoc)





section \<open>The history in the prompt\<close>

text \<open>\<open>ragQuery\<close> reads the service through six of its fields; the logs are not among them.\<close>

lemma ragQuery_frame:
  assumes "llm s' = llm s" and "isReady s' = isReady s"
    and "localKnowledge s' = localKnowledge s" and "vectorStore s' = vectorStore s"
    and "chromaInitialized s' = chromaInitialized s" and "sessionContexts s' = sessionContexts s"
  shows "ragQuery s' now q lang ctx = ragQuery s now q lang ctx"
  unfolding ragQuery_def ragQueryTry_def retrieve_def localSearch_def chromaSearch_def
    sessionSearch_def getBasicResponse_def assms ..

lemma updateSession_conversationHistory:
  "updateSession e (s\<lparr>conversationHistory := h\<rparr>) opts = updateSession e s opts"
  by (simp add: updateSession_def)

lemma history_last_ten:
  "conversationHistory s sid = Some h \<Longrightarrow>
   getConversationHistory s sid 10 = join ''\<newline>'' (map formatTurn (drop (length h - 10) h))"
  by (simp add: getConversationHistory_def slice_last_def)

text \<open>
  C10. For a session with a stored log, the history text that \<open>processWithRAG\<close> hands to
  the prompt is the rendering of the last 10 turns of the log, at most 10 lines. When
  the log is \<open>older @ recent\<close> with 10 turns in \<open>recent\<close>, the text is the rendering of
  \<open>recent\<close> alone, and a service whose log holds only \<open>recent\<close> builds the same context
  and returns the same result: the older turns reach no prompt.
\<close>

theorem history_text_last_ten:
  assumes "conversationHistory s (opt_sessionId opts) = Some h"
  shows "ctx_history (ragContext e s opts)
           = Some (join ''\<newline>'' (map formatTurn (drop (length h - 10) h)))
       \<and> length (drop (length h - 10) h) \<le> 10
       \<and> (\<forall>older recent. h = older @ recent \<and> length recent = 10 \<longrightarrow>
             ctx_history (ragContext e s opts) = Some (join ''\<newline>'' (map formatTurn recent))
             \<and> ragContext e (s\<lparr>conversationHistory :=
                    (conversationHistory s)(opt_sessionId opts \<mapsto> recent)\<rparr>) opts
                 = ragContext e s opts
             \<and> snd (processWithRAG e (s\<lparr>conversationHistory :=
                    (conversationHistory s)(opt_sessionId opts \<mapsto> recent)\<rparr>) opts)
                 = snd (processWithRAG e s opts))"
proof (intro conjI allI impI)
  show "ctx_history (ragContext e s opts)
          = Some (join ''\<newline>'' (map formatTurn (drop (length h - 10) h)))"
    using assms by (simp add: ragContext_def history_last_ten)
  show "length (drop (length h - 10) h) \<le> 10" by simp
next
  fix older recent
  assume hr: "h = older @ recent \<and> length recent = 10"
  let ?s' = "s\<lparr>conversationHistory := (conversationHistory s)(opt_sessionId opts \<mapsto> recent)\<rparr>"
  have text_s: "getConversationHistory s (opt_sessionId opts) 10
                  = join ''\<newline>'' (map formatTurn recent)"
    using assms hr by (simp add: history_last_ten)
  have text_s': "getConversationHistory ?s' (opt_sessionId opts) 10
                  = join ''\<newline>'' (map formatTurn recent)"
    using hr by (simp add: getConversationHistory_def slice_last_def)
  show "ctx_history (ragContext e s opts) = Some (join ''\<newline>'' (map formatTurn recent))"
    using text_s by (simp add: ragContext_def)
  show ctx: "ragContext e ?s' opts = ragContext e s opts"
    unfolding ragContext_def text_s text_s' updateSession_conversationHistory ..
  have upd: "updateSession e ?s' opts = updateSession e s opts"
    by (rule updateSession_conversationHistory)
  show "snd (processWithRAG e ?s' opts) = snd (processWithRAG e s opts)"
  proof -
    have "ragQuery (?s'\<lparr>sessionContexts := (sessionContexts ?s')
              (opt_sessionId opts \<mapsto> updateSession e s opts)\<rparr>) (clock e 2)
              (opt_message opts) (opt_language opts) (ragContext e s opts)
          = ragQuery (s\<lparr>sessionContexts := (sessionContexts s)
              (opt_sessionId opts \<mapsto> updateSession e s opts)\<rparr>) (clock e 2)
              (opt_message opts) (opt_language opts) (ragContext e s opts)"
      by (rule ragQuery_frame) simp_all
    then show ?thesis
      by (simp add: processWithRAG_def Let_def ctx upd)
  qed
qed

text \<open>The witness of C10: a log of twelve turns, of which the last ten are rendered.\<close>

theorem history_text_last_ten_witness:
  "conversationHistory long_log_service (opt_sessionId (request ''hello'' ''en'' ''s1'' []))
     = Some (map example_turn [0, 1, 2, 3, 4, 5, 6, 7, 8, 9, 10, 11])
   \<and> map example_turn [0, 1, 2, 3, 4, 5, 6, 7, 8, 9, 10, 11]
       = map example_turn [0, 1] @ map example_turn [2, 3, 4, 5, 6, 7, 8, 9, 10, 11]
   \<and> length (map example_turn [2, 3, 4, 5, 6, 7, 8, 9, 10, 11]) = 10
   \<and> ctx_history (ragContext example_env long_log_service (request ''hello'' ''en'' ''s1'' []))
       = Some (join ''\<newline>''
           (map formatTurn (map example_turn [2, 3, 4, 5, 6, 7, 8, 9, 10, 11])))"
proof -
  have h: "conversationHistory long_log_service (opt_sessionId (request ''hello'' ''en'' ''s1'' []))
     = Some (map example_turn [0, 1, 2, 3, 4, 5, 6, 7, 8, 9, 10, 11])"
    by (simp add: long_log_service_def constructor_def request_def)
  have split: "map example_turn [0, 1, 2, 3, 4, 5, 6, 7, 8, 9, 10, 11]
       = map example_turn [0, 1] @ map example_turn [2, 3, 4, 5, 6, 7, 8, 9, 10, 11]
     \<and> length (map example_turn [2, 3, 4, 5, 6, 7, 8, 9, 10, 11]) = 10"
    by simp
  from history_text_last_ten [OF h, of example_env, THEN conjunct2, THEN conjunct2, rule_format,
      OF split]
  show ?thesis using h split by simp
qed

text \<open>A language that is no inherited key has a configuration; an inherited key has none.\<close>

lemma langConfigFor_own: "lang \<notin> set inheritedKeys \<Longrightarrow> \<exists>c. langConfigFor lang = Val c"
  by (simp add: langConfigFor_def getProperty_def orElse_def split: option.splits)

lemma langConfigFor_en: "langConfigFor ''en'' = Val en_config"
  by (simp add: langConfigFor_def getProperty_def orElse_def languageConfig_def)

lemma langConfigFor_inherited:
  "lang \<in> set inheritedKeys \<Longrightarrow> langConfigFor lang = Inherited lang"
  by (auto simp add: langConfigFor_def getProperty_def orElse_def languageConfig_def
      inheritedKeys_def)

text \<open>
  With a configuration, every statement after the history block appends to the prompt
  and does not throw.
\<close>

lemma addQuery_keeps: "str_includes p w \<Longrightarrow> str_includes (addQuery query p) w"
  unfolding addQuery_def by (rule str_includes_append_left)

lemma addLanguageRules_keeps:
  assumes "langConfigFor lang = Val c" and "str_includes p w"
  shows "\<exists>p'. addLanguageRules lang p = Inr p' \<and> str_includes p' w"
  using assms
  by (simp add: addLanguageRules_def configInstructions_def str_includes_append_left
      del: str_includes.simps)

lemma addImageInstructions_keeps:
  assumes "langConfigFor lang = Val c" and "str_includes p w"
  shows "\<exists>p'. addImageInstructions query lang p = Inr p' \<and> str_includes p' w"
  using assms
  by (simp add: addImageInstructions_def configInstructions_def str_includes_append_left
      del: str_includes.simps)

lemma addDocumentInstructions_keeps:
  assumes "langConfigFor lang = Val c" and "str_includes p w"
  shows "\<exists>p'. addDocumentInstructions query lang p = Inr p' \<and> str_includes p' w"
  using assms
  by (simp add: addDocumentInstructions_def configInstructions_def str_includes_append_left
      del: str_includes.simps)

lemma addFileInstruction_keeps:
  assumes "langConfigFor lang = Val c" and "str_includes p w"
  shows "\<exists>p'. addFileInstruction lang context p = Inr p' \<and> str_includes p' w"
  using assms
  by (simp add: addFileInstruction_def configInstructions_def str_includes_append_left
      del: str_includes.simps)

lemma addGuidelines_keeps: "str_includes p w \<Longrightarrow> str_includes (addGuidelines lang p) w"
  unfolding addGuidelines_def by (rule str_includes_append_left)

lemma enhancedPrompt_keeps:
  assumes c: "langConfigFor lang = Val c"
    and w: "str_includes
              (addQuery query
                (addHistory context
                  (addFileCount context
                    (addFileContext context (promptStart lang docs))))) w"
  shows "\<exists>p. enhancedPrompt query lang context docs = Inr p \<and> str_includes p w"
proof -
  from addLanguageRules_keeps [OF c w] obtain p5 where
    p5: "addLanguageRules lang
           (addQuery query
             (addHistory context
               (addFileCount context
                 (addFileContext context (promptStart lang docs))))) = Inr p5"
    and w5: "str_includes p5 w"
    by blast
  from addImageInstructions_keeps [OF c w5] obtain p6 where
    p6: "addImageInstructions query lang p5 = Inr p6" and w6: "str_includes p6 w"
    by blast
  from addDocumentInstructions_keeps [OF c w6] obtain p7 where
    p7: "addDocumentInstructions query lang p6 = Inr p7" and w7: "str_includes p7 w"
    by blast
  from addFileInstruction_keeps [OF c w7] obtain p8 where
    p8: "addFileInstruction lang context p7 = Inr p8" and w8: "str_includes p8 w"
    by blast
  have "enhancedPrompt query lang context docs = Inr (addGuidelines lang p8)"
    by (simp add: enhancedPrompt_def p5 p6 p7 p8)
  with addGuidelines_keeps [OF w8] show ?thesis by blast
qed

text \<open>The prompt is built for every language that is no inherited key.\<close>

lemma enhancedPrompt_builds:
  assumes "lang \<notin> set inheritedKeys"
  shows "\<exists>p. enhancedPrompt query lang context docs = Inr p"
proof -
  from assms obtain c where c: "langConfigFor lang = Val c"
    using langConfigFor_own by blast
  have "str_includes
          (addQuery query
            (addHistory context
              (addFileCount context
                (addFileContext context (promptStart lang docs))))) []"
    by (rule str_includes_Nil)
  from enhancedPrompt_keeps [OF c this] show ?thesis by blast
qed

text \<open>For an inherited key the statement that reads the general instruction throws.\<close>

lemma enhancedPrompt_throws:
  "lang \<in> set inheritedKeys \<Longrightarrow> enhancedPrompt query lang context docs = Inl TypeError"
  by (simp add: enhancedPrompt_def addLanguageRules_def configInstructions_def
      langConfigFor_inherited)

text \<open>
  A history text that is not empty and does not trim to \<open>No previous conversation\<close> is in
  the prompt, under its heading.
\<close>

lemma enhancedPrompt_history_block:
  assumes "langConfigFor lang = Val c"
    and "ctx_history context = Some h" and "h \<noteq> []"
    and "trim h \<noteq> ''No previous conversation''"
  shows "\<exists>p. enhancedPrompt query lang context docs = Inr p
           \<and> str_includes p (''\<newline>\<newline>PREVIOUS CONVERSATION:\<newline>'' @ h)"
proof -
  have "str_includes (addHistory context p) (''\<newline>\<newline>PREVIOUS CONVERSATION:\<newline>'' @ h)" for p
  proof -
    have "addHistory context p = p @ (''\<newline>\<newline>PREVIOUS CONVERSATION:\<newline>'' @ h)"
      using assms by (simp add: addHistory_def)
    moreover have "str_includes (p @ (''\<newline>\<newline>PREVIOUS CONVERSATION:\<newline>'' @ h) @ [])
                     (''\<newline>\<newline>PREVIOUS CONVERSATION:\<newline>'' @ h)"
      unfolding str_includes_iff by blast
    ultimately show ?thesis by simp
  qed
  then have "str_includes
          (addQuery query
            (addHistory context
              (addFileCount context
                (addFileContext context (promptStart lang docs)))))
          (''\<newline>\<newline>PREVIOUS CONVERSATION:\<newline>'' @ h)"
    by (rule addQuery_keeps)
  with assms(1) show ?thesis by (rule enhancedPrompt_keeps)
qed

lemma trim_sentinel:
  "trim ''No previous conversation in this session.'' \<noteq> ''No previous conversation''"
  by (simp add: trim_def isWhitespace_def)

text \<open>What \<open>ragQuery\<close> returns, by how its \<open>try\<close> block ends.\<close>

lemma ragQuery_first_call_answers:
  assumes "llm s = Some invoke" and "isReady s"
    and "enhancedPrompt q lang ctx (fst (retrieve s q ctx)) = Inr p"
    and "invoke 0 p = Some t"
  shows "ragQuery s now q lang ctx
           = \<lparr>res_text = Val t, res_sources = snd (retrieve s q ctx), res_confidence = 9 / 10,
              res_language = lang, res_timestamp = now\<rparr>"
  using assms by (cases "retrieve s q ctx") (simp add: ragQuery_def ragQueryTry_def)

lemma ragQuery_first_call_fails:
  assumes "llm s = Some invoke" and "isReady s"
    and "enhancedPrompt q lang ctx (fst (retrieve s q ctx)) = Inr p"
    and "invoke 0 p = None"
  shows "ragQueryTry s invoke now q lang ctx = Inl CallFailed"
    and "ragQuery s now q lang ctx = getBasicResponse s 1 now q lang"
  using assms
  by (cases "retrieve s q ctx"; simp add: ragQuery_def ragQueryTry_def callsMade_def)+

lemma ragQuery_prompt_throws:
  assumes "llm s = Some invoke" and "isReady s"
    and "enhancedPrompt q lang ctx (fst (retrieve s q ctx)) = Inl err"
  shows "ragQuery s now q lang ctx = getBasicResponse s (callsMade err) now q lang"
  using assms by (cases "retrieve s q ctx") (simp add: ragQuery_def ragQueryTry_def)

lemma getBasicResponse_sources:
  "res_sources (getBasicResponse s n now q lang) = [''ollama_llm'']
   \<or> res_sources (getBasicResponse s n now q lang) = [''fallback'']"
  by (simp add: getBasicResponse_def fallbackResponse_def split: option.splits)

text \<open>
  C5 fails on the code. A first request \<open>hello\<close> of the session \<open>s1\<close>, which has no stored
  turn: the history text is the sentence that \<open>getConversationHistory\<close> returns for a
  session without a log, the prompt builder compares it with another sentence, and the
  prompt (the backend here answers with the prompt it was given) holds a
  \<open>PREVIOUS CONVERSATION\<close> section with that sentence in it.
\<close>

theorem sentinel_history_block_in_prompt:
  "conversationHistory (initialize llm_echo None) ''s1'' = None
   \<and> ctx_history (ragContext example_env (initialize llm_echo None)
         (request ''hello'' ''en'' ''s1'' []))
       = Some ''No previous conversation in this session.''
   \<and> str_includes
         (render (r_text (snd (processWithRAG example_env (initialize llm_echo None)
                                (request ''hello'' ''en'' ''s1'' [])))))
         ''\<newline>\<newline>PREVIOUS CONVERSATION:\<newline>No previous conversation in this session.''"
proof (intro conjI)
  show none: "conversationHistory (initialize llm_echo None) ''s1'' = None"
    by (simp add: startup_defs)
  show ctx: "ctx_history (ragContext example_env (initialize llm_echo None)
         (request ''hello'' ''en'' ''s1'' []))
       = Some ''No previous conversation in this session.''"
    using none by (simp add: ragContext_def getConversationHistory_def request_def)
  let ?s = "initialize llm_echo None"
  let ?o = "request ''hello'' ''en'' ''s1'' []"
  let ?s1 = "?s\<lparr>sessionContexts :=
               (sessionContexts ?s)(''s1'' \<mapsto> updateSession example_env ?s ?o)\<rparr>"
  have rtext: "r_text (snd (processWithRAG example_env ?s ?o))
      = res_text (ragQuery ?s1 (clock example_env 2) ''hello'' ''en''
          (ragContext example_env ?s ?o))"
    by (simp add: processWithRAG_def Let_def request_def)
  from enhancedPrompt_history_block [OF langConfigFor_en ctx _ trim_sentinel]
  obtain p where
    p: "enhancedPrompt ''hello'' ''en'' (ragContext example_env ?s ?o)
          (fst (retrieve ?s1 ''hello'' (ragContext example_env ?s ?o))) = Inr p"
    and b: "str_includes p
          (''\<newline>\<newline>PREVIOUS CONVERSATION:\<newline>'' @ ''No previous conversation in this session.'')"
    by fastforce
  have "ragQuery ?s1 (clock example_env 2) ''hello'' ''en'' (ragContext example_env ?s ?o)
      = \<lparr>res_text = Val p,
         res_sources = snd (retrieve ?s1 ''hello'' (ragContext example_env ?s ?o)),
         res_confidence = 9 / 10, res_language = ''en'',
         res_timestamp = clock example_env 2\<rparr>"
    by (rule ragQuery_first_call_answers [where invoke = llm_echo, OF _ _ p])
      (simp_all add: startup_defs llm_echo_def)
  with b show "str_includes (render (r_text (snd (processWithRAG example_env ?s ?o))))
      ''\<newline>\<newline>PREVIOUS CONVERSATION:\<newline>No previous conversation in this session.''"
    unfolding rtext by (simp add: render_def)
qed

section \<open>Failure of the inference backend\<close>

lemma ragQueryTry_all_calls_fail:
  assumes "\<forall>p. invoke 0 p = None"
  shows "\<exists>err. ragQueryTry s invoke now q lang ctx = Inl err"
proof (cases "retrieve s q ctx")
  case (Pair docs srcs)
  show ?thesis
  proof (cases "enhancedPrompt q lang ctx docs")
    case (Inl err)
    with Pair show ?thesis by (simp add: ragQueryTry_def)
  next
    case (Inr p)
    with Pair assms show ?thesis by (simp add: ragQueryTry_def)
  qed
qed

lemma getBasicResponse_call_fails:
  assumes "\<forall>invoke. llm s = Some invoke \<longrightarrow> (\<forall>p. invoke n p = None)"
  shows "getBasicResponse s n now q lang = fallbackResponse now q lang"
  using assms by (cases "llm s") (simp_all add: getBasicResponse_def)

lemma ragQuery_all_calls_fail:
  assumes "\<forall>invoke. llm s = Some invoke \<longrightarrow> (\<forall>p. invoke 0 p = None) \<and> (\<forall>p. invoke 1 p = None)"
  shows "ragQuery s now q lang ctx = fallbackResponse now q lang"
proof (cases "llm s")
  case None
  then show ?thesis by (simp add: ragQuery_def)
next
  case (Some invoke)
  with assms have f0: "\<forall>p. invoke 0 p = None" and f1: "\<forall>p. invoke 1 p = None" by auto
  from ragQueryTry_all_calls_fail [where invoke = invoke, OF f0] obtain err where
    err: "ragQueryTry s invoke now q lang ctx = Inl err"
    by blast
  have "callsMade err = 0 \<or> callsMade err = 1"
    by (cases err) (simp_all add: callsMade_def)
  with Some f0 f1 have "getBasicResponse s (callsMade err) now q lang = fallbackResponse now q lang"
    by (intro getBasicResponse_call_fails) auto
  with Some err show ?thesis
    by (simp add: ragQuery_def)
qed

text \<open>The canned text is a string for every language that is no inherited key.\<close>

lemma fallbackResponse_text:
  "lang \<notin> set inheritedKeys \<Longrightarrow>
   res_text (fallbackResponse now q lang)
     = Val (case responses q lang of Some t \<Rightarrow> t | None \<Rightarrow> fallback_en q)"
  by (simp add: fallbackResponse_def getProperty_def orElse_def split: option.splits)

text \<open>
  C1, as the code has it. For a language given as a string, \<open>processWithRAG\<close> returns a
  result: no error leaves it. When moreover the language is no inherited key and every
  inference call of the request throws, the call with the full prompt and the second
  call with the short prompt of \<open>getBasicResponse\<close> (or when the service has no model
  object), the result holds the canned text of the language, the English one for a
  language outside the table, with confidence 0.6 and the sources \<open>[fallback]\<close>.
\<close>

theorem inference_failure_fallback:
  "(\<exists>st r. processWithRAG_json e s opts (JStr lang) = Inr (st, r))
   \<and> ((\<forall>invoke. llm s = Some invoke \<longrightarrow> (\<forall>p. invoke 0 p = None) \<and> (\<forall>p. invoke 1 p = None))
        \<and> lang \<notin> set inheritedKeys \<longrightarrow>
       (\<exists>st r. processWithRAG_json e s opts (JStr lang) = Inr (st, r)
          \<and> r_text r = Val (case responses (opt_message opts) lang of
                             Some t \<Rightarrow> t
                           | None \<Rightarrow> fallback_en (opt_message opts))
          \<and> r_confidence r = 6 / 10
          \<and> r_sources r = [''fallback'']
          \<and> r_language r = lang))"
proof (intro conjI impI)
  show "\<exists>st r. processWithRAG_json e s opts (JStr lang) = Inr (st, r)"
    by (cases "processWithRAG e s (opts\<lparr>opt_language := lang\<rparr>)")
      (simp add: processWithRAG_json_def)
next
  assume h: "(\<forall>invoke. llm s = Some invoke \<longrightarrow> (\<forall>p. invoke 0 p = None) \<and> (\<forall>p. invoke 1 p = None))
     \<and> lang \<notin> set inheritedKeys"
  let ?o = "opts\<lparr>opt_language := lang\<rparr>"
  let ?s1 = "s\<lparr>sessionContexts := (sessionContexts s)
               (opt_sessionId ?o \<mapsto> updateSession e s ?o)\<rparr>"
  have "\<forall>invoke. llm ?s1 = Some invoke \<longrightarrow> (\<forall>p. invoke 0 p = None) \<and> (\<forall>p. invoke 1 p = None)"
    using h by simp
  then have "ragQuery ?s1 (clock e 2) (opt_message ?o) (opt_language ?o) (ragContext e s ?o)
      = fallbackResponse (clock e 2) (opt_message ?o) (opt_language ?o)"
    by (rule ragQuery_all_calls_fail)
  moreover have "res_text (fallbackResponse (clock e 2) (opt_message ?o) (opt_language ?o))
      = Val (case responses (opt_message opts) lang of
               Some t \<Rightarrow> t
             | None \<Rightarrow> fallback_en (opt_message opts))"
    using h fallbackResponse_text [of lang "clock e 2" "opt_message opts"] by simp
  ultimately have
    "r_text (snd (processWithRAG e s ?o))
       = Val (case responses (opt_message opts) lang of
                Some t \<Rightarrow> t
              | None \<Rightarrow> fallback_en (opt_message opts))
     \<and> r_confidence (snd (processWithRAG e s ?o)) = 6 / 10
     \<and> r_sources (snd (processWithRAG e s ?o)) = [''fallback'']
     \<and> r_language (snd (processWithRAG e s ?o)) = lang"
    by (simp add: processWithRAG_def Let_def fallbackResponse_def)
  then show "\<exists>st r. processWithRAG_json e s opts (JStr lang) = Inr (st, r)
          \<and> r_text r = Val (case responses (opt_message opts) lang of
                             Some t \<Rightarrow> t
                           | None \<Rightarrow> fallback_en (opt_message opts))
          \<and> r_confidence r = 6 / 10
          \<and> r_sources r = [''fallback'']
          \<and> r_language r = lang"
    by (cases "processWithRAG e s ?o") (simp add: processWithRAG_json_def)
qed

text \<open>The witness of C1: a ready service whose backend is down, and the request \<open>hello\<close>.\<close>

theorem inference_failure_fallback_witness:
  "llm (initialize llm_down None) = Some llm_down
   \<and> (\<forall>p. llm_down 0 p = None) \<and> (\<forall>p. llm_down 1 p = None)
   \<and> ''en'' \<notin> set inheritedKeys
   \<and> processWithRAG_json example_env (initialize llm_down None)
         (request ''hello'' ''en'' ''s1'' []) (JStr ''en'')
       = Inr (processWithRAG example_env (initialize llm_down None)
                (request ''hello'' ''en'' ''s1'' []))
   \<and> r_text (snd (processWithRAG example_env (initialize llm_down None)
                 (request ''hello'' ''en'' ''s1'' [])))
       = Val (fallback_en ''hello'')
   \<and> r_confidence (snd (processWithRAG example_env (initialize llm_down None)
                 (request ''hello'' ''en'' ''s1'' []))) = 6 / 10
   \<and> r_sources (snd (processWithRAG example_env (initialize llm_down None)
                 (request ''hello'' ''en'' ''s1'' []))) = [''fallback'']"
proof -
  have d: "llm (initialize llm_down None) = Some llm_down
     \<and> (\<forall>p. llm_down 0 p = None) \<and> (\<forall>p. llm_down 1 p = None)"
    by (simp add: startup_defs llm_down_def)
  have k: "''en'' \<notin> set inheritedKeys"
    by (simp add: inheritedKeys_def)
  have h: "(\<forall>invoke. llm (initialize llm_down None) = Some invoke \<longrightarrow>
       (\<forall>p. invoke 0 p = None) \<and> (\<forall>p. invoke 1 p = None))
     \<and> ''en'' \<notin> set inheritedKeys"
    using d k by simp
  have j: "processWithRAG_json example_env (initialize llm_down None)
         (request ''hello'' ''en'' ''s1'' []) (JStr ''en'')
       = Inr (processWithRAG example_env (initialize llm_down None)
                (request ''hello'' ''en'' ''s1'' []))"
    by (simp add: processWithRAG_json_def request_def)
  from inference_failure_fallback [of example_env "initialize llm_down None"
      "request ''hello'' ''en'' ''s1'' []" "''en''", THEN conjunct2, THEN mp, OF h]
  obtain st r where
    "processWithRAG_json example_env (initialize llm_down None)
         (request ''hello'' ''en'' ''s1'' []) (JStr ''en'') = Inr (st, r)"
    and "r_text r = Val (case responses (opt_message (request ''hello'' ''en'' ''s1'' [])) ''en'' of
                           Some t \<Rightarrow> t
                         | None \<Rightarrow> fallback_en (opt_message (request ''hello'' ''en'' ''s1'' [])))"
    and "r_confidence r = 6 / 10" and "r_sources r = [''fallback'']"
    by blast
  with j have "r_text (snd (processWithRAG example_env (initialize llm_down None)
                 (request ''hello'' ''en'' ''s1'' [])))
       = Val (fallback_en ''hello'')
     \<and> r_confidence (snd (processWithRAG example_env (initialize llm_down None)
                 (request ''hello'' ''en'' ''s1'' []))) = 6 / 10
     \<and> r_sources (snd (processWithRAG example_env (initialize llm_down None)
                 (request ''hello'' ''en'' ''s1'' []))) = [''fallback'']"
    by (auto simp add: request_def responses_def)
  with d k j show ?thesis by simp
qed

text \<open>
  C1 as stated fails: the call with the full prompt throws, the second call answers,
  and the result carries that answer with confidence 0.8 and the sources
  \<open>[ollama_llm]\<close>.
\<close>

theorem retry_answers_after_failed_inference:
  "ragQueryTry
     ((initialize llm_retry_only None)
        \<lparr>sessionContexts := (sessionContexts (initialize llm_retry_only None))
           (''s1'' \<mapsto> updateSession example_env (initialize llm_retry_only None)
                        (request ''hello'' ''en'' ''s1'' []))\<rparr>)
     llm_retry_only (clock example_env 2) ''hello'' ''en''
     (ragContext example_env (initialize llm_retry_only None) (request ''hello'' ''en'' ''s1'' []))
     = Inl CallFailed
   \<and> processWithRAG_json example_env (initialize llm_retry_only None)
         (request ''hello'' ''en'' ''s1'' []) (JStr ''en'')
       = Inr (processWithRAG example_env (initialize llm_retry_only None)
                (request ''hello'' ''en'' ''s1'' []))
   \<and> r_text (snd (processWithRAG example_env (initialize llm_retry_only None)
                 (request ''hello'' ''en'' ''s1'' [])))
       = Val ''Hello, I am Ahad AI.''
   \<and> r_sources (snd (processWithRAG example_env (initialize llm_retry_only None)
                 (request ''hello'' ''en'' ''s1'' []))) = [''ollama_llm'']
   \<and> r_confidence (snd (processWithRAG example_env (initialize llm_retry_only None)
                 (request ''hello'' ''en'' ''s1'' []))) = 8 / 10"
proof -
  let ?s = "initialize llm_retry_only None"
  let ?o = "request ''hello'' ''en'' ''s1'' []"
  let ?s1 = "?s\<lparr>sessionContexts :=
               (sessionContexts ?s)(''s1'' \<mapsto> updateSession example_env ?s ?o)\<rparr>"
  let ?ctx = "ragContext example_env ?s ?o"
  have k: "''en'' \<notin> set inheritedKeys"
    by (simp add: inheritedKeys_def)
  from enhancedPrompt_builds [OF k] obtain p where
    p: "enhancedPrompt ''hello'' ''en'' ?ctx (fst (retrieve ?s1 ''hello'' ?ctx)) = Inr p"
    by blast
  have l: "llm ?s1 = Some llm_retry_only" and r: "isReady ?s1"
    by (simp_all add: startup_defs)
  have c: "llm_retry_only 0 p = None"
    by (simp add: llm_retry_only_def)
  note f = ragQuery_first_call_fails [OF l r p c, of "clock example_env 2"]
  have "getBasicResponse ?s1 1 (clock example_env 2) ''hello'' ''en''
      = \<lparr>res_text = Val ''Hello, I am Ahad AI.'', res_sources = [''ollama_llm''],
         res_confidence = 8 / 10, res_language = ''en'', res_timestamp = clock example_env 2\<rparr>"
    by (simp add: getBasicResponse_def startup_defs llm_retry_only_def)
  with f(2) have "ragQuery ?s1 (clock example_env 2) ''hello'' ''en'' ?ctx
      = \<lparr>res_text = Val ''Hello, I am Ahad AI.'', res_sources = [''ollama_llm''],
         res_confidence = 8 / 10, res_language = ''en'', res_timestamp = clock example_env 2\<rparr>"
    by simp
  then have "r_text (snd (processWithRAG example_env ?s ?o)) = Val ''Hello, I am Ahad AI.''
     \<and> r_sources (snd (processWithRAG example_env ?s ?o)) = [''ollama_llm'']
     \<and> r_confidence (snd (processWithRAG example_env ?s ?o)) = 8 / 10"
    by (simp add: processWithRAG_def Let_def request_def)
  moreover have "processWithRAG_json example_env ?s ?o (JStr ''en'')
       = Inr (processWithRAG example_env ?s ?o)"
    by (simp add: processWithRAG_json_def request_def)
  ultimately show ?thesis using f(1) by simp
qed

text \<open>
  Outside the languages of C1. For the language \<open>constructor\<close>, an inherited key, the
  text of the canned answer is the inherited function and no string; with a backend
  that answers, the full prompt is never sent and the answer to the short prompt comes
  back with the sources \<open>[ollama_llm]\<close>. A language that is no string leaves
  \<open>processWithRAG\<close> as a \<open>TypeError\<close>.
\<close>

lemma inherited_language_text:
  "res_text (fallbackResponse now q ''constructor'') = Inherited ''constructor''"
  by (simp add: fallbackResponse_def getProperty_def orElse_def responses_def inheritedKeys_def)

lemma inherited_language_short_prompt:
  assumes "llm s = Some invoke" and "isReady s" and "lang \<in> set inheritedKeys"
    and "invoke 0 (basicPrompt q lang) = Some t"
  shows "ragQuery s now q lang ctx
           = \<lparr>res_text = Val t, res_sources = [''ollama_llm''], res_confidence = 8 / 10,
              res_language = lang, res_timestamp = now\<rparr>"
proof -
  have "ragQuery s now q lang ctx = getBasicResponse s (callsMade TypeError) now q lang"
    using assms(1,2) enhancedPrompt_throws [OF assms(3)] by (rule ragQuery_prompt_throws)
  with assms(1,4) show ?thesis
    by (simp add: getBasicResponse_def callsMade_def)
qed

lemma language_not_a_string:
  "processWithRAG_json e s opts JNull = Inl TypeError"
  "processWithRAG_json e s opts (JNum n) = Inl TypeError"
  "processWithRAG_json e s opts (JBool b) = Inl TypeError"
  "processWithRAG_json e s opts (JArr vs) = Inl TypeError"
  "processWithRAG_json e s opts (JObj kvs) = Inl TypeError"
  by (simp_all add: processWithRAG_json_def)

section \<open>The source tags\<close>

lemma retrieve_sources_local: "''local_knowledge'' \<in> set (snd (retrieve s q ctx))"
  by (simp add: retrieve_def Let_def split: option.splits prod.splits)

text \<open>
  C4, as the code has it. On a ready service and for a language that is no inherited
  key, the full prompt is built. When the call of the model with it answers, the
  sources of the result hold \<open>local_knowledge\<close> and the confidence is 0.9, whatever the
  search found; when that call throws, the sources are \<open>[ollama_llm]\<close> or \<open>[fallback]\<close>,
  without \<open>local_knowledge\<close>. For \<open>processWithRAG\<close>: when the first call answers every
  prompt, the sources hold \<open>local_knowledge\<close>.
\<close>

theorem local_knowledge_source_on_success:
  assumes "llm s = Some invoke" and "isReady s"
  shows "(lang \<notin> set inheritedKeys \<longrightarrow>
            (\<exists>p. enhancedPrompt q lang ctx (fst (retrieve s q ctx)) = Inr p
               \<and> (invoke 0 p \<noteq> None \<longrightarrow>
                    ''local_knowledge'' \<in> set (res_sources (ragQuery s now q lang ctx))
                    \<and> res_confidence (ragQuery s now q lang ctx) = 9 / 10)
               \<and> (invoke 0 p = None \<longrightarrow>
                    (res_sources (ragQuery s now q lang ctx) = [''ollama_llm'']
                     \<or> res_sources (ragQuery s now q lang ctx) = [''fallback''])
                    \<and> ''local_knowledge'' \<notin> set (res_sources (ragQuery s now q lang ctx)))))
       \<and> (opt_language opts \<notin> set inheritedKeys \<and> (\<forall>p. invoke 0 p \<noteq> None) \<longrightarrow>
            ''local_knowledge'' \<in> set (r_sources (snd (processWithRAG e s opts))))"
proof (intro conjI impI)
  assume k: "lang \<notin> set inheritedKeys"
  from enhancedPrompt_builds [OF k] obtain p where
    p: "enhancedPrompt q lang ctx (fst (retrieve s q ctx)) = Inr p"
    by blast
  have a: "''local_knowledge'' \<in> set (res_sources (ragQuery s now q lang ctx))
     \<and> res_confidence (ragQuery s now q lang ctx) = 9 / 10" if "invoke 0 p \<noteq> None"
  proof -
    from that obtain t where "invoke 0 p = Some t" by blast
    with assms p have "ragQuery s now q lang ctx
           = \<lparr>res_text = Val t, res_sources = snd (retrieve s q ctx), res_confidence = 9 / 10,
              res_language = lang, res_timestamp = now\<rparr>"
      by (rule ragQuery_first_call_answers)
    then show ?thesis by (simp add: retrieve_sources_local)
  qed
  have b: "(res_sources (ragQuery s now q lang ctx) = [''ollama_llm'']
     \<or> res_sources (ragQuery s now q lang ctx) = [''fallback''])
     \<and> ''local_knowledge'' \<notin> set (res_sources (ragQuery s now q lang ctx))" if "invoke 0 p = None"
  proof -
    from assms p that have "ragQuery s now q lang ctx = getBasicResponse s 1 now q lang"
      by (rule ragQuery_first_call_fails)
    with getBasicResponse_sources [of s 1 now q lang] show ?thesis by auto
  qed
  from p a b show "\<exists>p. enhancedPrompt q lang ctx (fst (retrieve s q ctx)) = Inr p
               \<and> (invoke 0 p \<noteq> None \<longrightarrow>
                    ''local_knowledge'' \<in> set (res_sources (ragQuery s now q lang ctx))
                    \<and> res_confidence (ragQuery s now q lang ctx) = 9 / 10)
               \<and> (invoke 0 p = None \<longrightarrow>
                    (res_sources (ragQuery s now q lang ctx) = [''ollama_llm'']
                     \<or> res_sources (ragQuery s now q lang ctx) = [''fallback''])
                    \<and> ''local_knowledge'' \<notin> set (res_sources (ragQuery s now q lang ctx)))"
    by (intro exI [of _ p] conjI impI) simp_all
next
  assume h: "opt_language opts \<notin> set inheritedKeys \<and> (\<forall>p. invoke 0 p \<noteq> None)"
  let ?s1 = "s\<lparr>sessionContexts := (sessionContexts s)
               (opt_sessionId opts \<mapsto> updateSession e s opts)\<rparr>"
  let ?ctx = "ragContext e s opts"
  from h enhancedPrompt_builds obtain p where
    p: "enhancedPrompt (opt_message opts) (opt_language opts) ?ctx
          (fst (retrieve ?s1 (opt_message opts) ?ctx)) = Inr p"
    by blast
  from h obtain t' where call: "invoke 0 p = Some t'"
    by fastforce
  have "llm ?s1 = Some invoke" and "isReady ?s1"
    using assms by simp_all
  from this p call have "ragQuery ?s1 (clock e 2) (opt_message opts) (opt_language opts) ?ctx
           = \<lparr>res_text = Val t', res_sources = snd (retrieve ?s1 (opt_message opts) ?ctx),
              res_confidence = 9 / 10, res_language = opt_language opts,
              res_timestamp = clock e 2\<rparr>"
    by (rule ragQuery_first_call_answers)
  then show "''local_knowledge'' \<in> set (r_sources (snd (processWithRAG e s opts)))"
    by (simp add: processWithRAG_def Let_def retrieve_sources_local)
qed

text \<open>
  The witness of C4: a ready service and the query \<open>xyzzy\<close>, which no stored document
  matches, once with a backend that answers and once with a backend that is down.
\<close>

theorem local_knowledge_source_on_success_witness:
  "llm (initialize llm_echo None) = Some llm_echo
   \<and> isReady (initialize llm_echo None)
   \<and> ''en'' \<notin> set inheritedKeys
   \<and> (\<forall>p. llm_echo 0 p \<noteq> None)
   \<and> (\<forall>p. llm_down 0 p = None)
   \<and> localSearch (initialize llm_echo None) ''xyzzy'' = []
   \<and> ''local_knowledge'' \<in> set (res_sources (ragQuery (initialize llm_echo None) ''t0'' ''xyzzy''
                                      ''en'' empty_context))
   \<and> res_confidence (ragQuery (initialize llm_echo None) ''t0'' ''xyzzy'' ''en'' empty_context)
       = 9 / 10
   \<and> ''local_knowledge'' \<in> set (r_sources (snd (processWithRAG example_env
                     (initialize llm_echo None) (request ''xyzzy'' ''en'' ''s1'' []))))
   \<and> ''local_knowledge'' \<notin> set (res_sources (ragQuery (initialize llm_down None) ''t0'' ''xyzzy''
                                      ''en'' empty_context))"
proof -
  have a: "llm (initialize llm_echo None) = Some llm_echo"
    and b: "isReady (initialize llm_echo None)"
    and a': "llm (initialize llm_down None) = Some llm_down"
    and b': "isReady (initialize llm_down None)"
    by (simp_all add: startup_defs)
  have k: "''en'' \<notin> set inheritedKeys"
    by (simp add: inheritedKeys_def)
  have c: "\<forall>p. llm_echo 0 p \<noteq> None" and c': "\<forall>p. llm_down 0 p = None"
    by (simp_all add: llm_echo_def llm_down_def)
  have e: "localSearch (initialize llm_echo None) ''xyzzy'' = []"
    by code_simp
  have ko: "opt_language (request ''xyzzy'' ''en'' ''s1'' []) \<notin> set inheritedKeys
      \<and> (\<forall>p. llm_echo 0 p \<noteq> None)"
    using k c by (simp add: request_def)
  note t = local_knowledge_source_on_success [OF a b, where q = "''xyzzy''" and lang = "''en''"
      and ctx = empty_context and now = "''t0''" and e = example_env
      and opts = "request ''xyzzy'' ''en'' ''s1'' []"]
  note t' = local_knowledge_source_on_success [OF a' b', where q = "''xyzzy''" and lang = "''en''"
      and ctx = empty_context and now = "''t0''" and e = example_env
      and opts = "request ''xyzzy'' ''en'' ''s1'' []"]
  from t [THEN conjunct1, THEN mp, OF k] obtain p where
    "llm_echo 0 p \<noteq> None \<longrightarrow>
       ''local_knowledge'' \<in> set (res_sources (ragQuery (initialize llm_echo None) ''t0''
                                      ''xyzzy'' ''en'' empty_context))
       \<and> res_confidence (ragQuery (initialize llm_echo None) ''t0'' ''xyzzy'' ''en''
                           empty_context) = 9 / 10"
    by blast
  with c
  have 1: "''local_knowledge'' \<in> set (res_sources (ragQuery (initialize llm_echo None) ''t0''
                                      ''xyzzy'' ''en'' empty_context))
     \<and> res_confidence (ragQuery (initialize llm_echo None) ''t0'' ''xyzzy'' ''en'' empty_context)
       = 9 / 10"
    by blast
  from t [THEN conjunct2, THEN mp, OF ko]
  have 2: "''local_knowledge'' \<in> set (r_sources (snd (processWithRAG example_env
                     (initialize llm_echo None) (request ''xyzzy'' ''en'' ''s1'' []))))" .
  from t' [THEN conjunct1, THEN mp, OF k] c'
  have 3: "''local_knowledge'' \<notin> set (res_sources (ragQuery (initialize llm_down None) ''t0''
                                      ''xyzzy'' ''en'' empty_context))"
    by auto
  from a b k c c' e 1 2 3 show ?thesis by simp
qed

text \<open>
  C4 as stated fails: with the backend down the sources of the result are \<open>[fallback]\<close>.
\<close>

theorem failed_inference_sources_without_local_knowledge:
  "r_sources (snd (processWithRAG example_env (initialize llm_down None)
                     (request ''what is new'' ''en'' ''s1'' []))) = [''fallback'']
   \<and> ''local_knowledge'' \<notin> set (r_sources (snd (processWithRAG example_env
                     (initialize llm_down None) (request ''what is new'' ''en'' ''s1'' []))))"
proof -
  let ?s = "initialize llm_down None"
  let ?o = "request ''what is new'' ''en'' ''s1'' []"
  let ?s1 = "?s\<lparr>sessionContexts := (sessionContexts ?s)
               (opt_sessionId ?o \<mapsto> updateSession example_env ?s ?o)\<rparr>"
  have "\<forall>invoke. llm ?s1 = Some invoke \<longrightarrow> (\<forall>p. invoke 0 p = None) \<and> (\<forall>p. invoke 1 p = None)"
    by (simp add: startup_defs llm_down_def)
  then have "ragQuery ?s1 (clock example_env 2) (opt_message ?o) (opt_language ?o)
               (ragContext example_env ?s ?o)
      = fallbackResponse (clock example_env 2) (opt_message ?o) (opt_language ?o)"
    by (rule ragQuery_all_calls_fail)
  then show ?thesis
    by (simp add: processWithRAG_def Let_def fallbackResponse_def)
qed

section \<open>Search in the session files\<close>






section \<open>A query without words\<close>

lemma searchInSessionFiles_no_tokens:
  "queryWords q = [] \<Longrightarrow> searchInSessionFiles q fs = []"
  by (simp add: searchInSessionFiles_def)

lemma sessionSearch_no_tokens:
  "queryWords q = [] \<Longrightarrow> sessionSearch s q ctx = None \<or> sessionSearch s q ctx = Some []"
  by (simp add: sessionSearch_def searchInSessionFiles_no_tokens split: option.splits)

text \<open>
  C3, as the code has it. For a query without a word of more than two characters,
  step 1 returns the first three documents of the local knowledge, the search in the
  session files returns nothing, and the passages are those of step 1 followed by those
  of the vector search; the vector search runs as for any query, and when it answers,
  \<open>chromadb\<close> is among the sources.
\<close>

theorem empty_query_retrieval:
  assumes "queryWords q = []"
  shows "localSearch s q
           = map (\<lambda>doc. \<lparr>pageContent = content doc, doc_metadata = metadata doc\<rparr>)
               (take 3 (localKnowledge s))
       \<and> searchInSessionFiles q fs = []
       \<and> fst (retrieve s q ctx)
           = localSearch s q
             @ (case chromaSearch s q of Some chromaDocs \<Rightarrow> chromaDocs | None \<Rightarrow> [])
       \<and> (\<forall>store chromaDocs.
             vectorStore s = Some store \<and> chromaInitialized s \<and> store q 2 = Some chromaDocs \<longrightarrow>
             chromaSearch s q = Some chromaDocs
             \<and> ''chromadb'' \<in> set (snd (retrieve s q ctx)))"
proof (intro conjI allI impI)
  show "localSearch s q
           = map (\<lambda>doc. \<lparr>pageContent = content doc, doc_metadata = metadata doc\<rparr>)
               (take 3 (localKnowledge s))"
    using assms by (simp add: localSearch_def docMatches_def)
  show "searchInSessionFiles q fs = []"
    using assms by (rule searchInSessionFiles_no_tokens)
  show "fst (retrieve s q ctx)
           = localSearch s q
             @ (case chromaSearch s q of Some chromaDocs \<Rightarrow> chromaDocs | None \<Rightarrow> [])"
    using sessionSearch_no_tokens [OF assms, of s ctx]
    by (auto simp add: retrieve_def split: option.splits)
next
  fix store chromaDocs
  assume h: "vectorStore s = Some store \<and> chromaInitialized s \<and> store q 2 = Some chromaDocs"
  then show c: "chromaSearch s q = Some chromaDocs"
    by (simp add: chromaSearch_def)
  show "''chromadb'' \<in> set (snd (retrieve s q ctx))"
    using c by (auto simp add: retrieve_def split: option.splits)
qed

text \<open>
  The witness of C3: the query \<open>hi\<close> on a service with a vector store and a session that
  holds one file.
\<close>

theorem empty_query_retrieval_witness:
  "queryWords ''hi'' = []
   \<and> vectorStore files_session_service = Some example_store
   \<and> chromaInitialized files_session_service
   \<and> example_store ''hi'' 2 = Some [\<lparr>pageContent = ''vector hit'', doc_metadata = Map.empty\<rparr>]
   \<and> searchInSessionFiles ''hi'' [notes_file] = []
   \<and> length (localSearch files_session_service ''hi'') = 3
   \<and> ''chromadb'' \<in> set (snd (retrieve files_session_service ''hi'' session_context_s1))
   \<and> length (fst (retrieve files_session_service ''hi'' session_context_s1)) = 4"
proof -
  have q: "queryWords ''hi'' = []"
    by (simp add: queryWords_def string_defs)
  have v: "vectorStore files_session_service = Some example_store
     \<and> chromaInitialized files_session_service
     \<and> example_store ''hi'' 2 = Some [\<lparr>pageContent = ''vector hit'', doc_metadata = Map.empty\<rparr>]"
    by (simp add: files_session_service_def startup_defs example_store_def)
  note t = empty_query_retrieval [OF q, of files_session_service "[notes_file]" session_context_s1]
  from t have l: "length (localSearch files_session_service ''hi'') = 3"
    by (simp add: files_session_service_def startup_defs)
  from t [THEN conjunct2, THEN conjunct2, THEN conjunct2, rule_format, OF v]
  have c: "chromaSearch files_session_service ''hi''
             = Some [\<lparr>pageContent = ''vector hit'', doc_metadata = Map.empty\<rparr>]"
    and r: "''chromadb'' \<in> set (snd (retrieve files_session_service ''hi'' session_context_s1))"
    by simp_all
  from t c l have "length (fst (retrieve files_session_service ''hi'' session_context_s1)) = 4"
    by simp
  with q v t l r show ?thesis by simp
qed

text \<open>
  C3 as stated fails: for the query \<open>hi\<close> the session \<open>s1\<close> holds a file with content, and
  the search in its files returns no passage.
\<close>

theorem empty_query_skips_session_files:
  "queryWords ''hi'' = []
   \<and> sessionContexts files_session_service ''s1'' = Some (old_session\<lparr>files := [notes_file]\<rparr>)
   \<and> file_content notes_file = Some ''invoice total $500''
   \<and> searchInSessionFiles ''hi'' [notes_file] = []
   \<and> sessionSearch files_session_service ''hi'' session_context_s1 = Some []"
  by (simp add: queryWords_def string_defs files_session_service_def notes_file_def
      searchInSessionFiles_def sessionSearch_def session_context_s1_def old_session_def)

section \<open>Ingest, then retrieve\<close>





end
